theory Spec2Isabelle
  imports Complex_Main
begin

section \<open>Results of a call\<close>

text \<open>
  The exceptions the two modules can raise.  \<open>IntrinsicsEstimationError\<close> is the class
  declared in \<^verbatim>\<open>refine_homography.py\<close>; the others are Python's and numpy's own.
\<close>

datatype exn =
    IntrinsicsEstimationError
  | AssertionError
  | ValueError
  | IndexError
  | TypeError
  | NameError
  | LinAlgError

text \<open>
  A call either returns a value or raises.  Floating-point numbers are modelled by the
  reals: the arithmetic is exact, and an equation between real results says nothing
  about the last bits of the float64 results.  The reals have no \<open>inf\<close> and no \<open>nan\<close>.
  Where numpy divides an array by zero it only warns and goes on with such entries; a
  function whose array has them, and which raises nothing, answers \<open>Nonfinite\<close>.  Where
  an exception can follow from such entries they are modelled (\<open>npfloat\<close> below) or the
  caller turns \<open>Nonfinite\<close> into the exception.
\<close>

datatype 'a result = Returns 'a | Raises exn | Nonfinite

fun bind :: "'a result \<Rightarrow> ('a \<Rightarrow> 'b result) \<Rightarrow> 'b result" where
  "bind (Returns a) f = f a"
| "bind (Raises e) f = Raises e"
| "bind Nonfinite f = Nonfinite"

fun traverse :: "('a \<Rightarrow> 'b result) \<Rightarrow> 'a list \<Rightarrow> 'b list result" where
  "traverse f [] = Returns []"
| "traverse f (a # as) = bind (f a) (\<lambda>b. bind (traverse f as) (\<lambda>bs. Returns (b # bs)))"

section \<open>Arrays\<close>

type_synonym vector = "real list"
type_synonym matrix = "real list list"

text \<open>A two-dimensional array is the list of its rows.\<close>

definition shape :: "matrix \<Rightarrow> nat \<Rightarrow> nat \<Rightarrow> bool" where
  "shape m r c \<longleftrightarrow> length m = r \<and> list_all (\<lambda>row. length row = c) m"

fun columns :: "matrix \<Rightarrow> matrix" where
  "columns [] = []"
| "columns [r] = map (\<lambda>a. [a]) r"
| "columns (r # rs) = map2 (#) r (columns rs)"

definition inner :: "vector \<Rightarrow> vector \<Rightarrow> real" where
  "inner u v = sum_list (map2 (*) u v)"

text \<open>\<^verbatim>\<open>A.dot(B)\<close> for two-dimensional arrays of matching shapes.\<close>

definition dot :: "matrix \<Rightarrow> matrix \<Rightarrow> matrix" where
  "dot A B = map (\<lambda>row. map (inner row) (columns B)) A"

text \<open>\<^verbatim>\<open>M[:,j]\<close>.\<close>

definition col :: "matrix \<Rightarrow> nat \<Rightarrow> vector" where
  "col m j = map (\<lambda>row. row ! j) m"

text \<open>
  \<^verbatim>\<open>np.hstack\<close> of a list of one-dimensional arrays.  On an empty list numpy raises
  \<^verbatim>\<open>ValueError\<close> (there is nothing to concatenate).
\<close>

definition hstack :: "vector list \<Rightarrow> vector result" where
  "hstack arrs = (if arrs = [] then Raises ValueError else Returns (concat arrs))"

text \<open>
  \<^verbatim>\<open>np.reshape(v, (-1, 4))\<close> and \<^verbatim>\<open>np.reshape(v, (-1, 6))\<close> of a one-dimensional
  array: rows of four (six) entries in order, \<^verbatim>\<open>ValueError\<close> when the length is not a
  multiple of the row length.
\<close>

fun reshape4 :: "vector \<Rightarrow> (real \<times> real \<times> real \<times> real) list result" where
  "reshape4 [] = Returns []"
| "reshape4 (a # b # c # d # rest) = bind (reshape4 rest) (\<lambda>rows. Returns ((a, b, c, d) # rows))"
| "reshape4 _ = Raises ValueError"

fun reshape6 :: "vector \<Rightarrow> (real \<times> real \<times> real \<times> real \<times> real \<times> real) list result" where
  "reshape6 [] = Returns []"
| "reshape6 (a # b # c # d # e # f # rest) =
     bind (reshape6 rest) (\<lambda>rows. Returns ((a, b, c, d, e, f) # rows))"
| "reshape6 _ = Raises ValueError"

section \<open>Parameter nodes\<close>

text \<open>
  \<^verbatim>\<open>IntrinsicsNode\<close> holds \<open>fx, fy, cx, cy\<close> and a tag, \<^verbatim>\<open>ExtrinsicsNode\<close> holds
  \<open>x, y, z, r, p, h\<close> and a tag.
\<close>

datatype IntrinsicsNode = IntrinsicsNode real real real real string
datatype ExtrinsicsNode = ExtrinsicsNode real real real real real real string

fun inode_to_tuple :: "IntrinsicsNode \<Rightarrow> real \<times> real \<times> real \<times> real" where
  "inode_to_tuple (IntrinsicsNode fx fy cx cy tag) = (fx, fy, cx, cy)"

fun inode_set_value :: "real \<times> real \<times> real \<times> real \<Rightarrow> IntrinsicsNode \<Rightarrow> IntrinsicsNode" where
  "inode_set_value (t0, t1, t2, t3) (IntrinsicsNode fx fy cx cy tag) = IntrinsicsNode t0 t1 t2 t3 tag"

fun enode_to_tuple :: "ExtrinsicsNode \<Rightarrow> real \<times> real \<times> real \<times> real \<times> real \<times> real" where
  "enode_to_tuple (ExtrinsicsNode x y z r p h tag) = (x, y, z, r, p, h)"

fun enode_set_value ::
  "real \<times> real \<times> real \<times> real \<times> real \<times> real \<Rightarrow> ExtrinsicsNode \<Rightarrow> ExtrinsicsNode" where
  "enode_set_value (t0, t1, t2, t3, t4, t5) (ExtrinsicsNode x y z r p h tag) =
     ExtrinsicsNode t0 t1 t2 t3 t4 t5 tag"

fun tuple4 :: "real \<times> real \<times> real \<times> real \<Rightarrow> vector" where
  "tuple4 (a, b, c, d) = [a, b, c, d]"

fun tuple6 :: "real \<times> real \<times> real \<times> real \<times> real \<times> real \<Rightarrow> vector" where
  "tuple6 (a, b, c, d, e, f) = [a, b, c, d, e, f]"

text \<open>
  Nodes are mutable objects that the graph and the constraints refer to.  The store maps
  an object's address to its current state; every address holds an object, so a
  reference never dangles.
\<close>

type_synonym ref = nat

record store =
  inode_at :: "ref \<Rightarrow> IntrinsicsNode"
  enode_at :: "ref \<Rightarrow> ExtrinsicsNode"

section \<open>Constraint graph: packing and unpacking\<close>

text \<open>
  \<^verbatim>\<open>HomographyConstraint\<close>: the source points (4 rows: x, y, 0, 1), the target points
  (2 rows), the diagonal weight matrix and the two nodes.
\<close>

record HomographyConstraint =
  p_src :: matrix
  p_tgt :: matrix
  W :: matrix
  inode :: ref
  enode :: ref

text \<open>
  The two \<^verbatim>\<open>OrderedDict\<close>s are association lists from tag to node in insertion order;
  \<^verbatim>\<open>.values()\<close> is the list of second components.
\<close>

record ConstraintGraph =
  inodes :: "(string \<times> ref) list"
  enodes :: "(string \<times> ref) list"
  constraints :: "HomographyConstraint list"

definition pack_into_vector :: "ConstraintGraph \<Rightarrow> store \<Rightarrow> vector result" where
  "pack_into_vector g s =
     bind (hstack (map (\<lambda>i. tuple4 (inode_to_tuple (inode_at s i))) (map snd (inodes g)))) (\<lambda>istate.
     bind (hstack (map (\<lambda>e. tuple6 (enode_to_tuple (enode_at s e))) (map snd (enodes g)))) (\<lambda>estate.
     hstack [istate, estate]))"

text \<open>The two \<^verbatim>\<open>for ... in zip(...)\<close> loops: \<^verbatim>\<open>zip\<close> stops at the shorter list.\<close>

fun set_inodes :: "ref list \<Rightarrow> (real \<times> real \<times> real \<times> real) list \<Rightarrow> store \<Rightarrow> store" where
  "set_inodes (i # is) (ival # ivals) s =
     set_inodes is ivals (s\<lparr>inode_at := (inode_at s)(i := inode_set_value ival (inode_at s i))\<rparr>)"
| "set_inodes _ _ s = s"

fun set_enodes ::
  "ref list \<Rightarrow> (real \<times> real \<times> real \<times> real \<times> real \<times> real) list \<Rightarrow> store \<Rightarrow> store" where
  "set_enodes (e # es) (eval # evals) s =
     set_enodes es evals (s\<lparr>enode_at := (enode_at s)(e := enode_set_value eval (enode_at s e))\<rparr>)"
| "set_enodes _ _ s = s"

definition unpack_from_vector :: "ConstraintGraph \<Rightarrow> store \<Rightarrow> vector \<Rightarrow> store result" where
  "unpack_from_vector g s v =
     (let N = length (inodes g) in
      bind (reshape4 (take (4 * N) v)) (\<lambda>istate.
      bind (reshape6 (drop (4 * N) v)) (\<lambda>estate.
      Returns (set_enodes (map snd (enodes g)) estate (set_inodes (map snd (inodes g)) istate s)))))"

text \<open>\<^verbatim>\<open>ConstraintGraph.__init__\<close>: two empty ordered dictionaries and an empty list.\<close>

definition ConstraintGraph_init :: ConstraintGraph where
  "ConstraintGraph_init = \<lparr>inodes = [], enodes = [], constraints = []\<rparr>"

text \<open>A store for concrete evaluations: every object is zero with an empty tag.\<close>

definition store0 :: store where
  "store0 = \<lparr>inode_at = (\<lambda>a. IntrinsicsNode 0 0 0 0 []),
             enode_at = (\<lambda>a. ExtrinsicsNode 0 0 0 0 0 0 [])\<rparr>"

text \<open>A graph of one camera and one view.\<close>

definition graph1 :: ConstraintGraph where
  "graph1 = \<lparr>inodes = [(''cam'', 0)], enodes = [(''cam/pose0'', 0)], constraints = []\<rparr>"

section \<open>Geometry utilities\<close>

text \<open>\<^verbatim>\<open>_intrisics_to_matrix\<close> of \<^verbatim>\<open>refine_homography.py\<close>.\<close>

definition intrisics_to_matrix :: "real \<Rightarrow> real \<Rightarrow> real \<Rightarrow> real \<Rightarrow> matrix" where
  "intrisics_to_matrix fx fy cx cy =
     [[fx, 0, cx, 0],
      [0, fy, cy, 0],
      [0, 0, 1, 0]]"

text \<open>\<^verbatim>\<open>_matrix_to_intrinsics\<close>: \<^verbatim>\<open>K[0,0], K[1,1], K[0,2], K[1,2]\<close>.\<close>

definition matrix_to_intrinsics :: "matrix \<Rightarrow> (real \<times> real \<times> real \<times> real) result" where
  "matrix_to_intrinsics K =
     (if 2 \<le> length K \<and> 3 \<le> length (K ! 0) \<and> 3 \<le> length (K ! 1)
      then Returns (K ! 0 ! 0, K ! 1 ! 1, K ! 0 ! 2, K ! 1 ! 2)
      else Raises IndexError)"

text \<open>The four matrices that \<^verbatim>\<open>_xyzrph_to_matrix\<close> builds.\<close>

definition rotx :: "real \<Rightarrow> matrix" where
  "rotx t =
     [[1, 0, 0, 0],
      [0, cos t, - sin t, 0],
      [0, sin t, cos t, 0],
      [0, 0, 0, 1]]"

definition roty :: "real \<Rightarrow> matrix" where
  "roty t =
     [[cos t, 0, sin t, 0],
      [0, 1, 0, 0],
      [- sin t, 0, cos t, 0],
      [0, 0, 0, 1]]"

definition rotz :: "real \<Rightarrow> matrix" where
  "rotz t =
     [[cos t, - sin t, 0, 0],
      [sin t, cos t, 0, 0],
      [0, 0, 1, 0],
      [0, 0, 0, 1]]"

definition translate :: "real \<Rightarrow> real \<Rightarrow> real \<Rightarrow> matrix" where
  "translate x y z =
     [[1, 0, 0, x],
      [0, 1, 0, y],
      [0, 0, 1, z],
      [0, 0, 0, 1]]"

text \<open>
  \<^verbatim>\<open>reduce(np.dot, [translate(x, y, z), rotz(h), roty(p), rotx(r)])\<close>: the products are
  taken from the left.  \<open>cos\<close> and \<open>sin\<close> are the real functions and the products are
  exact; the program's float64 entries are roundings of these.
\<close>

definition xyzrph_to_matrix :: "real \<Rightarrow> real \<Rightarrow> real \<Rightarrow> real \<Rightarrow> real \<Rightarrow> real \<Rightarrow> matrix" where
  "xyzrph_to_matrix x y z r p h = foldl dot (translate x y z) [rotz h, roty p, rotx r]"

text \<open>
  \<^verbatim>\<open>np.arctan2(y, x)\<close>: the angle of the point \<open>(x, y)\<close> in \<open>(-\<pi>, \<pi>]\<close>.  The reals have one
  zero, so the model gives \<open>\<pi>\<close> on the negative x axis, as numpy does for \<open>y = +0.0\<close>.
\<close>

definition arctan2 :: "real \<Rightarrow> real \<Rightarrow> real" where
  "arctan2 y x =
     (if 0 < x then arctan (y / x)
      else if x < 0 then (if 0 \<le> y then arctan (y / x) + pi else arctan (y / x) - pi)
      else if 0 < y then pi / 2
      else if y < 0 then - (pi / 2)
      else 0)"

text \<open>
  \<^verbatim>\<open>_matrix_to_xyzrph\<close>.  The entries read are \<^verbatim>\<open>M[0,3], M[1,3], M[2,3], M[2,1], M[2,2],
  M[2,0], M[0,0], M[1,0]\<close>; an array too small for them gives \<^verbatim>\<open>IndexError\<close>.  The
  argument of \<^verbatim>\<open>sqrt\<close> is a sum of two squares.  \<open>sqrt\<close> and \<open>arctan2\<close> are the real
  functions: the angles the program returns are roundings of these, so nothing proved
  of this definition says which float64 the program returns.
\<close>

definition matrix_to_xyzrph ::
  "matrix \<Rightarrow> (real \<times> real \<times> real \<times> real \<times> real \<times> real) result" where
  "matrix_to_xyzrph M =
     (if 3 \<le> length M \<and> list_all (\<lambda>row. 4 \<le> length row) (take 3 M) then
        (let tx = M ! 0 ! 3;
             ty = M ! 1 ! 3;
             tz = M ! 2 ! 3;
             rx = arctan2 (M ! 2 ! 1) (M ! 2 ! 2);
             ry = arctan2 (- (M ! 2 ! 0)) (sqrt (M ! 0 ! 0 * M ! 0 ! 0 + M ! 1 ! 0 * M ! 1 ! 0));
             rz = arctan2 (M ! 1 ! 0) (M ! 0 ! 0)
         in Returns (tx, ty, tz, rx, ry, rz))
      else Raises IndexError)"

text \<open>
  Modelled from the spec: \<^verbatim>\<open>intrinsics_to_matrix\<close> of the module \<^verbatim>\<open>camera_math\<close>,
  which \<^verbatim>\<open>refine_homographies2.py\<close> imports and which is not among the sources.  The
  spec gives the 3 by 4 matrix \<open>[[fx, 0, cx, 0], [0, fy, cy, 0], [0, 0, 1, 0]]\<close>, the one
  \<^verbatim>\<open>_intrisics_to_matrix\<close> of \<^verbatim>\<open>refine_homography.py\<close> builds.
\<close>

definition intrinsics_to_matrix :: "real \<Rightarrow> real \<Rightarrow> real \<Rightarrow> real \<Rightarrow> matrix" where
  "intrinsics_to_matrix fx fy cx cy =
     [[fx, 0, cx, 0],
      [0, fy, cy, 0],
      [0, 0, 1, 0]]"

text \<open>
  Modelled from the spec: \<^verbatim>\<open>xyzrph_to_matrix\<close> of the module \<^verbatim>\<open>camera_math\<close>, not
  among the sources either.  The spec gives the product Translate(x, y, z) RotateZ(h)
  RotateY(p) RotateX(r) in that order, the one \<^verbatim>\<open>_xyzrph_to_matrix\<close> of
  \<^verbatim>\<open>refine_homography.py\<close> computes.
\<close>

definition camera_math_xyzrph_to_matrix ::
  "real \<Rightarrow> real \<Rightarrow> real \<Rightarrow> real \<Rightarrow> real \<Rightarrow> real \<Rightarrow> matrix" where
  "camera_math_xyzrph_to_matrix x y z r p h =
     dot (dot (dot (translate x y z) (rotz h)) (roty p)) (rotx r)"

text \<open>\<^verbatim>\<open>IntrinsicsNode.to_matrix\<close> and \<^verbatim>\<open>ExtrinsicsNode.to_matrix\<close>.\<close>

fun inode_to_matrix :: "IntrinsicsNode \<Rightarrow> matrix" where
  "inode_to_matrix (IntrinsicsNode fx fy cx cy tag) = intrinsics_to_matrix fx fy cx cy"

fun enode_to_matrix :: "ExtrinsicsNode \<Rightarrow> matrix" where
  "enode_to_matrix (ExtrinsicsNode x y z r p h tag) = camera_math_xyzrph_to_matrix x y z r p h"

section \<open>Residual constraints\<close>

text \<open>\<^verbatim>\<open>np.diag\<close> of a one-dimensional array.\<close>

definition diag :: "vector \<Rightarrow> matrix" where
  "diag v = map (\<lambda>i. map (\<lambda>j. if i = j then v ! i else 0) [0..<length v]) [0..<length v]"

text \<open>
  \<^verbatim>\<open>HomographyConstraint.__init__\<close>.  The homography model is an object of a module that
  is not among the sources; what the constructor reads from it are the correspondences
  (source and target point of each) and their weights, which are the arguments here.
  The source points get the columns 0 and 1 appended and the array is transposed; with
  no correspondence \<^verbatim>\<open>np.hstack\<close> is given arrays of different dimensions and raises.
\<close>

definition HomographyConstraint_init ::
  "((real \<times> real) \<times> (real \<times> real)) list \<Rightarrow> vector \<Rightarrow> ref \<Rightarrow> ref \<Rightarrow> HomographyConstraint result"
  where
  "HomographyConstraint_init corrs weights inode' enode' =
     (if corrs = [] then Raises ValueError
      else Returns
        \<lparr>p_src = columns (map (\<lambda>c. [fst (fst c), snd (fst c), 0, 1]) corrs),
         p_tgt = columns (map (\<lambda>c. [fst (snd c), snd (snd c)]) corrs),
         W = diag weights,
         inode = inode',
         enode = enode'\<rparr>)"

text \<open>
  \<^verbatim>\<open>sq_unweighted_reprojection_errors\<close>.  \<open>H = K.dot(E)\<close> has three rows, so
  \<^verbatim>\<open>p_mapped[2,:]\<close> exists.  The reciprocal of a zero homogeneous coordinate is \<open>inf\<close>.
  The subtraction is entry by entry: a constraint built by the constructor has as many
  target points as source points.
\<close>

definition sq_unweighted_reprojection_errors :: "store \<Rightarrow> HomographyConstraint \<Rightarrow> matrix result"
  where
  "sq_unweighted_reprojection_errors s c =
     (let K = inode_to_matrix (inode_at s (inode c));
          E = enode_to_matrix (enode_at s (enode c));
          H = dot K E;
          p_mapped = take 3 (dot H (p_src c));
          w = p_mapped ! 2
      in if list_ex (\<lambda>a. a = 0) w then Nonfinite
         else
           (let M = diag (map (\<lambda>a. 1 / a) w);
                p_mapped' = dot (take 2 p_mapped) M
            in Returns (map2 (map2 (\<lambda>a b. (a - b)\<^sup>2)) p_mapped' (p_tgt c))))"

text \<open>\<^verbatim>\<open>np.where(cond, a, b)\<close> on one-dimensional arrays of one length.\<close>

definition np_where :: "bool list \<Rightarrow> vector \<Rightarrow> vector \<Rightarrow> vector" where
  "np_where cond a b = map (\<lambda>(c, u, v). if c then u else v) (zip cond (zip a b))"

text \<open>
  The local function \<^verbatim>\<open>pseudo_huber_loss(delta)\<close> of \<^verbatim>\<open>sq_errors\<close>; \<open>sqerr\<close> and
  \<open>abserr\<close> are the variables of the enclosing call.
\<close>

definition pseudo_huber_loss :: "vector \<Rightarrow> vector \<Rightarrow> real \<Rightarrow> vector" where
  "pseudo_huber_loss sqerr abserr delta =
     np_where (map (\<lambda>a. a \<le> delta) abserr)
            (map (\<lambda>s. s / 2) sqerr)
            (map (\<lambda>a. delta * (a - delta / 2)) abserr)"

definition sq_errors :: "store \<Rightarrow> HomographyConstraint \<Rightarrow> vector result" where
  "sq_errors s c =
     bind (sq_unweighted_reprojection_errors s c) (\<lambda>m.
       (let sqerr = concat m;
            abserr = map sqrt sqerr
        in Returns (pseudo_huber_loss sqerr abserr 1)))"

text \<open>\<^verbatim>\<open>ConstraintGraph.constraint_errors\<close>.\<close>

definition constraint_errors :: "ConstraintGraph \<Rightarrow> store \<Rightarrow> vector result" where
  "constraint_errors g s = bind (traverse (sq_errors s) (constraints g)) hstack"

text \<open>
  The pseudo-Huber residual in the words of the specification: for a squared error
  \<open>sqerr\<close> with absolute error \<open>err = sqrt sqerr\<close> and threshold \<open>\<delta> = 1.0\<close>, it is
  \<open>sqerr / 2\<close> when \<open>err \<le> \<delta>\<close> and \<open>\<delta> * (err - \<delta> / 2)\<close> otherwise.
\<close>

definition spec_pseudo_huber :: "real \<Rightarrow> real" where
  "spec_pseudo_huber sqerr =
     (if sqrt sqerr \<le> 1 then sqerr / 2 else 1 * (sqrt sqerr - 1 / 2))"

text \<open>Two constraints with the same correspondences and the same nodes.\<close>

definition differ_only_in_weights :: "HomographyConstraint \<Rightarrow> HomographyConstraint \<Rightarrow> bool" where
  "differ_only_in_weights c d \<longleftrightarrow>
     p_src c = p_src d \<and> p_tgt c = p_tgt d \<and> inode c = inode d \<and> enode c = enode d"

text \<open>
  For concrete evaluations: a store whose intrinsics are \<open>fx = fy = 1, cx = cy = 0\<close> and
  whose poses are the translation by \<open>(0, 0, 1)\<close>, and two constraints on the source
  point \<open>(2, 3)\<close> observed at \<open>(3, 5)\<close>, with weights 1 and 9.
\<close>

definition store1 :: store where
  "store1 = \<lparr>inode_at = (\<lambda>a. IntrinsicsNode 1 1 0 0 []),
             enode_at = (\<lambda>a. ExtrinsicsNode 0 0 1 0 0 0 [])\<rparr>"

definition constraint_weight_1 :: HomographyConstraint where
  "constraint_weight_1 =
     \<lparr>p_src = [[2], [3], [0], [1]], p_tgt = [[3], [5]], W = [[1]], inode = 0, enode = 0\<rparr>"

definition constraint_weight_9 :: HomographyConstraint where
  "constraint_weight_9 =
     \<lparr>p_src = [[2], [3], [0], [1]], p_tgt = [[3], [5]], W = [[9]], inode = 0, enode = 0\<rparr>"

definition graph_weight_1 :: ConstraintGraph where
  "graph_weight_1 = graph1\<lparr>constraints := [constraint_weight_1]\<rparr>"

definition graph_weight_9 :: ConstraintGraph where
  "graph_weight_9 = graph1\<lparr>constraints := [constraint_weight_9]\<rparr>"

section \<open>Extrinsics from a homography\<close>

text \<open>\<^verbatim>\<open>np.eye(n)\<close>, and the negation \<^verbatim>\<open>-H\<close> of an array.\<close>

definition eye :: "nat \<Rightarrow> matrix" where
  "eye n = map (\<lambda>i. map (\<lambda>j. if i = j then 1 else 0) [0..<n]) [0..<n]"

definition neg :: "matrix \<Rightarrow> matrix" where
  "neg A = map (map uminus) A"

text \<open>
  \<^verbatim>\<open>np.linalg.inv\<close> of a 3 by 3 array, in exact arithmetic: the adjugate over the
  determinant, \<^verbatim>\<open>LinAlgError\<close> for a singular matrix.  \<^verbatim>\<open>np.linalg.inv\<close> also raises
  \<^verbatim>\<open>LinAlgError\<close> for an array that is not square; other square sizes are not
  modelled (the callers below reject them before).
\<close>

definition det3 :: "matrix \<Rightarrow> real" where
  "det3 K =
     K ! 0 ! 0 * (K ! 1 ! 1 * K ! 2 ! 2 - K ! 1 ! 2 * K ! 2 ! 1)
     - K ! 0 ! 1 * (K ! 1 ! 0 * K ! 2 ! 2 - K ! 1 ! 2 * K ! 2 ! 0)
     + K ! 0 ! 2 * (K ! 1 ! 0 * K ! 2 ! 1 - K ! 1 ! 1 * K ! 2 ! 0)"

definition linalg_inv :: "matrix \<Rightarrow> matrix result" where
  "linalg_inv K =
     (if \<not> shape K 3 3 \<or> det3 K = 0 then Raises LinAlgError
      else
        (let d = det3 K in
         Returns
          [[(K ! 1 ! 1 * K ! 2 ! 2 - K ! 1 ! 2 * K ! 2 ! 1) / d,
            (K ! 0 ! 2 * K ! 2 ! 1 - K ! 0 ! 1 * K ! 2 ! 2) / d,
            (K ! 0 ! 1 * K ! 1 ! 2 - K ! 0 ! 2 * K ! 1 ! 1) / d],
           [(K ! 1 ! 2 * K ! 2 ! 0 - K ! 1 ! 0 * K ! 2 ! 2) / d,
            (K ! 0 ! 0 * K ! 2 ! 2 - K ! 0 ! 2 * K ! 2 ! 0) / d,
            (K ! 0 ! 2 * K ! 1 ! 0 - K ! 0 ! 0 * K ! 1 ! 2) / d],
           [(K ! 1 ! 0 * K ! 2 ! 1 - K ! 1 ! 1 * K ! 2 ! 0) / d,
            (K ! 0 ! 1 * K ! 2 ! 0 - K ! 0 ! 0 * K ! 2 ! 1) / d,
            (K ! 0 ! 0 * K ! 1 ! 1 - K ! 0 ! 1 * K ! 1 ! 0) / d]]))"

text \<open>\<^verbatim>\<open>np.linalg.norm\<close> of a one-dimensional array.\<close>

definition norm2 :: "vector \<Rightarrow> real" where
  "norm2 v = sqrt (sum_list (map (\<lambda>a. a\<^sup>2) v))"

text \<open>\<^verbatim>\<open>np.cross\<close> of two vectors of three entries; other lengths are not used here.\<close>

fun cross :: "vector \<Rightarrow> vector \<Rightarrow> vector result" where
  "cross [a0, a1, a2] [b0, b1, b2] =
     Returns [a1 * b2 - a2 * b1, a2 * b0 - a0 * b2, a0 * b1 - a1 * b0]"
| "cross _ _ = Raises ValueError"

text \<open>
  The singular value decomposition is numpy's: \<^verbatim>\<open>np.linalg.svd(A)\<close> returns
  \<open>(U, s, Vt)\<close> or raises \<^verbatim>\<open>LinAlgError\<close> when the iteration does not converge.  The
  decomposition itself is a parameter of every function that calls it: a function from
  the array to the triple, \<open>None\<close> where numpy does not converge.
\<close>

type_synonym svd_fn = "matrix \<Rightarrow> (matrix \<times> vector \<times> matrix) option"

definition linalg_svd :: "svd_fn \<Rightarrow> matrix \<Rightarrow> (matrix \<times> vector \<times> matrix) result" where
  "linalg_svd svd A = (case svd A of None \<Rightarrow> Raises LinAlgError | Some usv \<Rightarrow> Returns usv)"

text \<open>
  Lines 154 to 172 of \<^verbatim>\<open>get_extrinsics_from_homography\<close>, from \<open>M\<close> (three rows, at
  least three columns) to the assembled \<open>E\<close>.  \<open>M0\<close> and \<open>M1\<close> are views of \<open>M\<close>: the
  norms are taken before \<open>M\<close> is changed, and the columns written into \<open>E\<close> are those of
  the rescaled and possibly negated \<open>M\<close>.  The scale is zero when one of the two columns
  is zero; the division then turns that column into \<open>nan\<close>, and so the first or second
  column of \<open>E\<close>: these lines raise nothing and leave an array with \<open>nan\<close> entries.  The
  test for the sign reads \<^verbatim>\<open>M[1,2]\<close>.
\<close>

definition rigid_candidate :: "matrix \<Rightarrow> matrix result" where
  "rigid_candidate M =
     (let M0_scale = norm2 (col M 0);
          M1_scale = norm2 (col M 1);
          scale = sqrt M0_scale * sqrt M1_scale
      in if scale = 0 then Nonfinite
         else
           (let M' = map (map (\<lambda>a. a / scale)) M;
                M'' = (if M' ! 1 ! 2 > 0 then map (map (\<lambda>a. a * (- 1))) M' else M');
                M0 = col M'' 0;
                M1 = col M'' 1
            in bind (cross M0 M1) (\<lambda>M2.
                 Returns
                   (map (\<lambda>i. [M0 ! i, M1 ! i, M2 ! i, col M'' 2 ! i]) [0..<3]
                    @ drop 3 (eye 4)))))"

text \<open>
  \<^verbatim>\<open>get_extrinsics_from_homography(H, intrinsics)\<close>.  The arrays the function works on
  are \<open>intrinsics\<close> of shape 3 by 3 and \<open>H\<close> with three rows and at least three columns
  (only the columns 0, 1 and 2 are read); for every other pair of two-dimensional
  arrays one of the numpy calls raises, which the model reports as \<^verbatim>\<open>ValueError\<close>
  whatever the class of the exception.  \<^verbatim>\<open>np.linalg.svd\<close> raises \<^verbatim>\<open>LinAlgError\<close> on an
  array with \<open>nan\<close> entries, which is what a zero scale leaves.  \<^verbatim>\<open>E[:3,:3] = U.dot(Vt)\<close>
  needs a 3 by 3 product.
\<close>

definition get_extrinsics_from_homography :: "svd_fn \<Rightarrow> matrix \<Rightarrow> matrix \<Rightarrow> matrix result" where
  "get_extrinsics_from_homography svd H intrinsics =
     (if \<not> (shape intrinsics 3 3 \<and> 3 \<le> length (H ! 0) \<and> shape H 3 (length (H ! 0)))
      then Raises ValueError
      else
        bind (linalg_inv intrinsics) (\<lambda>Ki.
          case rigid_candidate (dot Ki H) of
            Nonfinite \<Rightarrow> Raises LinAlgError
          | Raises e \<Rightarrow> Raises e
          | Returns E \<Rightarrow>
              bind (linalg_svd svd (map (take 3) (take 3 E))) (\<lambda>(U, s, Vt).
                (let R = dot U Vt in
                 if shape R 3 3
                 then Returns (map2 (\<lambda>r e. r @ drop 3 e) R (take 3 E) @ drop 3 E)
                 else Raises ValueError))))"

text \<open>
  What the code relies on from a decomposition \<open>(U, s, Vt)\<close> of a 3 by 3 matrix: \<open>U\<close> and
  \<open>Vt\<close> are orthogonal 3 by 3 matrices, the singular values are not negative, and
  \<open>U diag(s) Vt\<close> gives the matrix back.
\<close>

definition orthogonal3 :: "matrix \<Rightarrow> bool" where
  "orthogonal3 Q \<longleftrightarrow> shape Q 3 3 \<and> dot (columns Q) Q = eye 3 \<and> dot Q (columns Q) = eye 3"

definition is_svd3 :: "matrix \<Rightarrow> matrix \<times> vector \<times> matrix \<Rightarrow> bool" where
  "is_svd3 A usv =
     (case usv of (U, s, Vt) \<Rightarrow>
        orthogonal3 U \<and> orthogonal3 Vt \<and> length s = 3 \<and> list_all (\<lambda>a. 0 \<le> a) s \<and>
        dot (dot U (diag s)) Vt = A)"

text \<open>
  For concrete evaluations: an orthogonal matrix \<open>A\<close> is decomposed as \<open>A diag(1, 1, 1) I\<close>.
  The product \<open>U Vt\<close>, which is all the code uses, is the same for every other
  decomposition of an invertible matrix.
\<close>

definition svd_of_orthogonal :: svd_fn where
  "svd_of_orthogonal A = Some (A, [1, 1, 1], eye 3)"

text \<open>
  The decomposition function succeeds on \<open>A\<close> with a decomposition of \<open>A\<close>.
\<close>

definition svd_decomposes :: "svd_fn \<Rightarrow> matrix \<Rightarrow> bool" where
  "svd_decomposes svd A \<longleftrightarrow> (case svd A of Some usv \<Rightarrow> is_svd3 A usv | None \<Rightarrow> False)"

text \<open>A homography for concrete evaluations: the pose with translation \<open>(0, -1, 5)\<close>.\<close>

definition H_example :: matrix where
  "H_example = [[1, 0, 0], [0, 1, - 1], [0, 0, 5]]"

text \<open>A symmetric matrix \<open>P\<close> with \<open>v\<^sup>T P v \<ge> 0\<close> for every vector \<open>v\<close>.\<close>

definition positive_semidefinite3 :: "matrix \<Rightarrow> bool" where
  "positive_semidefinite3 P \<longleftrightarrow>
     (\<forall>x y z. 0 \<le> inner [x, y, z] (map (\<lambda>row. inner row [x, y, z]) P))"

text \<open>
  For concrete evaluations: intrinsics with focal length 2 and principal point
  \<open>(1, 1)\<close>, their inverse, and the homography \<open>K_example M\<close> for
  \<open>M = [[4, 0, 0], [0, 1/4, -1], [0, 0, 5]]\<close>, whose first two columns are orthogonal but
  not of unit length; a decomposition of the block assembled from it, with singular
  values 4, 1, 1/4; the homography \<open>K_example M\<close> for the same \<open>M\<close> with last column
  \<open>(0, -1, -5)\<close>; and the homography of the pose with translation \<open>(3, 0, -5)\<close>.
\<close>

definition K_example :: matrix where
  "K_example = [[2, 0, 1], [0, 2, 1], [0, 0, 1]]"

definition H_stretched :: matrix where
  "H_stretched = [[8, 0, 5], [0, 1 / 2, 3], [0, 0, 5]]"

definition svd_stretched :: svd_fn where
  "svd_stretched A =
     Some ([[1, 0, 0], [0, 0, 1], [0, 1, 0]], [4, 1, 1 / 4], [[1, 0, 0], [0, 0, 1], [0, 1, 0]])"

definition H_front :: matrix where
  "H_front = [[8, 0, - 5], [0, 1 / 2, - 7], [0, 0, - 5]]"

definition H_level :: matrix where
  "H_level = [[1, 0, 3], [0, 1, 0], [0, 0, - 5]]"

definition Ki_example :: matrix where
  "Ki_example = [[1 / 2, 0, - (1 / 2)], [0, 1 / 2, - (1 / 2)], [0, 0, 1]]"

section \<open>Intrinsics estimation\<close>

text \<open>
  \<^verbatim>\<open>_check_homographies\<close>: the assertion on the shapes comes first, then the test of
  the length.
\<close>

definition check_homographies :: "matrix list \<Rightarrow> nat \<Rightarrow> unit result" where
  "check_homographies homographies nmin =
     (if \<not> list_all (\<lambda>h. shape h 3 3) homographies then Raises AssertionError
      else if length homographies < nmin then Raises IntrinsicsEstimationError
      else Returns ())"

text \<open>
  \<^verbatim>\<open>_coeff_vec(H, i, j)\<close>.  The two columns are unpacked into three names each, which
  raises \<^verbatim>\<open>ValueError\<close> for a column of another length.
\<close>

definition coeff_vec :: "matrix \<Rightarrow> nat \<Rightarrow> nat \<Rightarrow> vector result" where
  "coeff_vec H i j =
     (case (col H i, col H j) of
        ([a0, a1, a2], [b0, b1, b2]) \<Rightarrow>
          Returns [a0 * b0,
                   a0 * b1 + a1 * b0,
                   a1 * b1,
                   a2 * b0 + a0 * b2,
                   a2 * b1 + a1 * b2,
                   a2 * b2]
      | _ \<Rightarrow> Raises ValueError)"

text \<open>
  Numbers that may be \<open>inf\<close> or \<open>nan\<close>, for the functions in which such a value decides
  between an exception and a result.  The operations are numpy's on float64 with exact
  arithmetic on the finite values: a division by zero gives \<open>inf\<close> or \<open>nan\<close> and a
  warning, never an exception.  The reals have one zero, which the model takes to be
  \<open>+0.0\<close>.
\<close>

datatype npfloat = Finite real | PosInf | NegInf | NaN

fun np_neg :: "npfloat \<Rightarrow> npfloat" where
  "np_neg (Finite a) = Finite (- a)"
| "np_neg PosInf = NegInf"
| "np_neg NegInf = PosInf"
| "np_neg NaN = NaN"

fun np_add :: "npfloat \<Rightarrow> npfloat \<Rightarrow> npfloat" where
  "np_add (Finite a) (Finite b) = Finite (a + b)"
| "np_add NaN _ = NaN"
| "np_add _ NaN = NaN"
| "np_add PosInf NegInf = NaN"
| "np_add NegInf PosInf = NaN"
| "np_add PosInf _ = PosInf"
| "np_add _ PosInf = PosInf"
| "np_add NegInf _ = NegInf"
| "np_add _ NegInf = NegInf"

definition np_sub :: "npfloat \<Rightarrow> npfloat \<Rightarrow> npfloat" where
  "np_sub a b = np_add a (np_neg b)"

fun np_mul :: "npfloat \<Rightarrow> npfloat \<Rightarrow> npfloat" where
  "np_mul (Finite a) (Finite b) = Finite (a * b)"
| "np_mul NaN _ = NaN"
| "np_mul _ NaN = NaN"
| "np_mul PosInf (Finite b) = (if b = 0 then NaN else if 0 < b then PosInf else NegInf)"
| "np_mul NegInf (Finite b) = (if b = 0 then NaN else if 0 < b then NegInf else PosInf)"
| "np_mul (Finite a) PosInf = (if a = 0 then NaN else if 0 < a then PosInf else NegInf)"
| "np_mul (Finite a) NegInf = (if a = 0 then NaN else if 0 < a then NegInf else PosInf)"
| "np_mul PosInf PosInf = PosInf"
| "np_mul NegInf NegInf = PosInf"
| "np_mul PosInf NegInf = NegInf"
| "np_mul NegInf PosInf = NegInf"

fun np_div :: "npfloat \<Rightarrow> npfloat \<Rightarrow> npfloat" where
  "np_div (Finite a) (Finite b) =
     (if b = 0 then (if a = 0 then NaN else if 0 < a then PosInf else NegInf)
      else Finite (a / b))"
| "np_div NaN _ = NaN"
| "np_div _ NaN = NaN"
| "np_div (Finite a) _ = Finite 0"
| "np_div PosInf (Finite b) = (if 0 \<le> b then PosInf else NegInf)"
| "np_div NegInf (Finite b) = (if 0 \<le> b then NegInf else PosInf)"
| "np_div _ _ = NaN"

text \<open>
  \<^verbatim>\<open>math.sqrt\<close> raises \<^verbatim>\<open>ValueError\<close> (math domain error) on a negative argument,
  \<open>-inf\<close> included, and returns \<open>nan\<close> for \<open>nan\<close>.
\<close>

fun math_sqrt :: "npfloat \<Rightarrow> npfloat result" where
  "math_sqrt (Finite a) = (if a < 0 then Raises ValueError else Returns (Finite (sqrt a)))"
| "math_sqrt PosInf = Returns PosInf"
| "math_sqrt NegInf = Raises ValueError"
| "math_sqrt NaN = Returns NaN"

text \<open>
  \<^verbatim>\<open>1./x\<close> and \<^verbatim>\<open>np.sqrt\<close> on the entries of an array: \<^verbatim>\<open>np.sqrt\<close> of a negative
  entry is \<open>nan\<close>; numpy warns and raises nothing.
\<close>

definition np_reciprocal :: "real \<Rightarrow> npfloat" where
  "np_reciprocal a = (if a = 0 then PosInf else Finite (1 / a))"

fun np_sqrt :: "npfloat \<Rightarrow> npfloat" where
  "np_sqrt (Finite a) = (if a < 0 then NaN else Finite (sqrt a))"
| "np_sqrt PosInf = PosInf"
| "np_sqrt NegInf = NaN"
| "np_sqrt NaN = NaN"

text \<open>
  \<^verbatim>\<open>_cam_matrix_from_B\<close>.  The arguments are numpy floats, so every operation is
  numpy's; the two square roots are \<^verbatim>\<open>math.sqrt\<close>.
\<close>

definition cam_matrix_from_B ::
  "real \<Rightarrow> real \<Rightarrow> real \<Rightarrow> real \<Rightarrow> real \<Rightarrow> real \<Rightarrow> npfloat list list result" where
  "cam_matrix_from_B b11 b12 b22 b13 b23 b33 =
     (let B11 = Finite b11; B12 = Finite b12; B22 = Finite b22;
          B13 = Finite b13; B23 = Finite b23; B33 = Finite b33;
          v0 = np_div (np_sub (np_mul B12 B13) (np_mul B11 B23))
                      (np_sub (np_mul B11 B22) (np_mul B12 B12));
          lambda = np_sub B33
                     (np_div (np_add (np_mul B13 B13)
                                     (np_mul v0 (np_sub (np_mul B12 B13) (np_mul B11 B23))))
                             B11)
      in bind (math_sqrt (np_div lambda B11)) (\<lambda>alpha.
         bind (math_sqrt (np_div (np_mul lambda B11)
                                 (np_sub (np_mul B11 B22) (np_mul B12 B12)))) (\<lambda>beta.
           (let gamma = np_div (np_mul (np_mul (np_mul (np_neg B12) alpha) alpha) beta) lambda;
                u0 = np_sub (np_div (np_mul gamma v0) beta)
                            (np_div (np_mul (np_mul B13 alpha) alpha) lambda)
            in Returns [[alpha, gamma, u0],
                        [Finite 0, beta, v0],
                        [Finite 0, Finite 0, Finite 1]]))))"

text \<open>
  The two constraint rows of one homography in \<^verbatim>\<open>estimate_intrinsics\<close> and
  \<^verbatim>\<open>estimate_intrinsics_noskew\<close>: \<^verbatim>\<open>_coeff_vec(H,0,1)\<close> and
  \<^verbatim>\<open>_coeff_vec(H,0,0) - _coeff_vec(H,1,1)\<close>.
\<close>

definition constraint_rows :: "matrix \<Rightarrow> matrix result" where
  "constraint_rows H =
     bind (coeff_vec H 0 1) (\<lambda>v01.
     bind (coeff_vec H 0 0) (\<lambda>v00.
     bind (coeff_vec H 1 1) (\<lambda>v11.
     Returns [v01, map2 (-) v00 v11])))"

text \<open>
  \<^verbatim>\<open>Vt.T[:,-1]\<close> is the last row of \<open>Vt\<close>; the result is unpacked into as many names
  as the estimator has unknowns.
\<close>

definition last_right_singular :: "svd_fn \<Rightarrow> matrix \<Rightarrow> vector result" where
  "last_right_singular svd C =
     bind (linalg_svd svd C) (\<lambda>(U, s, Vt).
       if Vt = [] then Raises IndexError else Returns (last Vt))"

definition estimate_intrinsics :: "svd_fn \<Rightarrow> matrix list \<Rightarrow> npfloat list list result" where
  "estimate_intrinsics svd homographies =
     bind (check_homographies homographies 2) (\<lambda>_.
     bind (traverse constraint_rows homographies) (\<lambda>rows.
       (let constraints = concat rows;
            constraints' = (if length homographies = 2
                            then constraints @ [[0, 1, 0, 0, 0, 0]] else constraints)
        in bind (last_right_singular svd constraints') (\<lambda>b.
             case b of
               [b11, b12, b22, b13, b23, b33] \<Rightarrow> cam_matrix_from_B b11 b12 b22 b13 b23 b33
             | _ \<Rightarrow> Raises ValueError))))"

text \<open>\<^verbatim>\<open>np.delete(C, 1, axis=1)\<close> removes the column of index 1.\<close>

definition delete_column1 :: "matrix \<Rightarrow> matrix" where
  "delete_column1 C = map (\<lambda>row. take 1 row @ drop 2 row) C"

definition estimate_intrinsics_noskew ::
  "svd_fn \<Rightarrow> matrix list \<Rightarrow> npfloat list list result" where
  "estimate_intrinsics_noskew svd homographies =
     bind (check_homographies homographies 2) (\<lambda>_.
     bind (traverse constraint_rows homographies) (\<lambda>rows.
       (let C = delete_column1 (concat rows)
        in bind (last_right_singular svd C) (\<lambda>b.
             case b of
               [b11, b22, b13, b23, b33] \<Rightarrow> cam_matrix_from_B b11 0 b22 b13 b23 b33
             | _ \<Rightarrow> Raises ValueError))))"

text \<open>The two constraint rows of one homography in \<^verbatim>\<open>estimate_intrinsics_noskew_assume_cxy\<close>.\<close>

definition constraint_rows_cxy :: "real \<Rightarrow> real \<Rightarrow> matrix \<Rightarrow> matrix result" where
  "constraint_rows_cxy u0 v0 H =
     (case (col H 0, col H 1) of
        ([h00, h10, h20], [h01, h11, h21]) \<Rightarrow>
          Returns
            [[h00 * h01 - u0 * h00 * h21 - u0 * h01 * h20 + u0 * u0 * h20 * h21,
              h10 * h11 - v0 * h10 * h21 - v0 * h11 * h20 + v0 * v0 * h20 * h21,
              h20 * h21],
             [h00 * h00 - h01 * h01 - 2 * u0 * h00 * h20 + 2 * u0 * h01 * h21
                + u0 * u0 * h20 * h20 - u0 * u0 * h21 * h21,
              h10 * h10 - h11 * h11 - 2 * v0 * h10 * h20 + 2 * v0 * h11 * h21
                + v0 * v0 * h20 * h20 - v0 * v0 * h21 * h21,
              h20 * h20 - h21 * h21]]
      | _ \<Rightarrow> Raises ValueError)"

definition estimate_intrinsics_noskew_assume_cxy ::
  "svd_fn \<Rightarrow> matrix list \<Rightarrow> real \<times> real \<Rightarrow> npfloat list list result" where
  "estimate_intrinsics_noskew_assume_cxy svd homographies cxy =
     bind (check_homographies homographies 1) (\<lambda>_.
       (case cxy of (u0, v0) \<Rightarrow>
          bind (traverse (constraint_rows_cxy u0 v0) homographies) (\<lambda>rows.
          bind (last_right_singular svd (concat rows)) (\<lambda>b.
            case map (\<lambda>a. np_sqrt (np_reciprocal a)) b of
              [alpha, beta, _] \<Rightarrow>
                Returns [[alpha, Finite 0, Finite u0],
                         [Finite 0, beta, Finite v0],
                         [Finite 0, Finite 0, Finite 1]]
            | _ \<Rightarrow> Raises ValueError))))"

text \<open>
  For concrete evaluations: a homography whose constraint matrix with \<open>cxy = (0, 0)\<close> is
  \<open>[[0, 0, 1], [1, 1, 0]]\<close>, and the two singular value decompositions of that matrix,
  which differ in the sign of the last right singular vector \<open>(1, -1, 0) / sqrt 2\<close>.
\<close>

definition H_mixed :: matrix where
  "H_mixed = [[1, 0, 0], [1, 0, 1], [1, 1, 1]]"

definition svd_mixed_plus :: svd_fn where
  "svd_mixed_plus C =
     Some ([[0, 1], [1, 0]], [sqrt 2, 1],
           [[1 / sqrt 2, 1 / sqrt 2, 0], [0, 0, 1], [1 / sqrt 2, - (1 / sqrt 2), 0]])"

definition svd_mixed_minus :: svd_fn where
  "svd_mixed_minus C =
     Some ([[0, 1], [1, 0]], [sqrt 2, 1],
           [[1 / sqrt 2, 1 / sqrt 2, 0], [0, 0, 1], [- (1 / sqrt 2), 1 / sqrt 2, 0]])"

section \<open>Refinement of one homography\<close>

text \<open>
  The names bound at module level in \<^verbatim>\<open>refine_homography.py\<close>: the imports, the
  exception class and the functions.  Of these only the estimator that
  \<^verbatim>\<open>refine_homography\<close> would need is given its value; a name is looked up when the
  call is evaluated, and an unbound name (one that is no builtin either, as the one
  looked up below) raises \<^verbatim>\<open>NameError\<close>.
\<close>

datatype global_object =
    Estimator "svd_fn \<Rightarrow> matrix list \<Rightarrow> real \<times> real \<Rightarrow> npfloat list list result"
  | Other

definition module_globals :: "string \<Rightarrow> global_object option" where
  "module_globals name =
     (if name = ''estimate_intrinsics_noskew_assume_cxy''
      then Some (Estimator estimate_intrinsics_noskew_assume_cxy)
      else if name \<in> set
        [''sqrt'', ''np'', ''root'', ''minimize'', ''IntrinsicsEstimationError'',
         ''_check_homographies'', ''_coeff_vec'', ''_cam_matrix_from_B'',
         ''estimate_intrinsics'', ''estimate_intrinsics_noskew'',
         ''get_extrinsics_from_homography'', ''_xyzrph_to_matrix'', ''_matrix_to_xyzrph'',
         ''_intrisics_to_matrix'', ''_matrix_to_intrinsics'', ''_reprojection_error'',
         ''refine_homography'', ''main'']
      then Some Other
      else None)"

text \<open>An array with an \<open>inf\<close> or \<open>nan\<close> entry has no counterpart over the reals.\<close>

fun finite_entry :: "npfloat \<Rightarrow> real option" where
  "finite_entry (Finite a) = Some a"
| "finite_entry _ = None"

definition finite_matrix :: "npfloat list list \<Rightarrow> matrix result" where
  "finite_matrix A =
     (if list_all (list_all (\<lambda>a. finite_entry a \<noteq> None)) A
      then Returns (map (map (\<lambda>a. case finite_entry a of Some b \<Rightarrow> b | None \<Rightarrow> 0)) A)
      else Nonfinite)"

text \<open>
  \<^verbatim>\<open>_reprojection_error\<close>.  The points are rows of two coordinates (an array without
  rows is one-dimensional, and \<^verbatim>\<open>np.hstack\<close> rejects it); \<open>weights\<close> is \<^verbatim>\<open>None\<close> or an
  array.  \<^verbatim>\<open>sqerr.dot(W)\<close> needs as many weights as points and raises otherwise,
  whatever the entries; nothing else in the function raises.
\<close>

definition reprojection_error ::
  "real \<Rightarrow> real \<Rightarrow> real \<Rightarrow> real \<Rightarrow> real \<Rightarrow> real \<Rightarrow> real \<Rightarrow> real \<Rightarrow> real \<Rightarrow> real \<Rightarrow>
   (real \<times> real) list \<Rightarrow> (real \<times> real) list \<Rightarrow> vector option \<Rightarrow> vector result" where
  "reprojection_error fx fy x y z r p h cx cy psrc ptgt weights =
     (let K = intrisics_to_matrix fx fy cx cy;
          E = xyzrph_to_matrix x y z r p h;
          H = dot K E;
          N = length psrc;
          weights' = (case weights of None \<Rightarrow> replicate N 1 | Some ws \<Rightarrow> ws)
      in if psrc = [] then Raises ValueError
         else if length weights' \<noteq> N then Raises ValueError
         else
          (let psrc' = columns (map (\<lambda>q. [fst q, snd q, 0, 1]) psrc);
               p_mapped = take 3 (dot H psrc');
               w = p_mapped ! 2
           in if list_ex (\<lambda>a. a = 0) w then Nonfinite
              else
               (let M = diag (map (\<lambda>a. 1 / a) w);
                    p_mapped' = dot (take 2 p_mapped) M;
                    Wm = diag weights';
                    ptgt' = columns (map (\<lambda>q. [fst q, snd q]) ptgt);
                    sqerr = map2 (map2 (\<lambda>a b. (a - b)\<^sup>2)) p_mapped' ptgt'
                in Returns (concat (dot sqerr Wm)))))"

text \<open>
  \<^verbatim>\<open>scipy.optimize.root(objective, x0, args, method='lm')\<close> is a parameter: from the
  residual function and the starting vector to \<^verbatim>\<open>result.x\<close>.
\<close>

type_synonym root_fn = "(vector \<Rightarrow> vector result) \<Rightarrow> vector \<Rightarrow> vector result"

text \<open>
  \<^verbatim>\<open>refine_homography\<close>.  Its first statement calls
  \<^verbatim>\<open>estimate_intrinsics_assume_cxy_noskew\<close>; evaluating the call begins with looking up
  that name.
\<close>

definition refine_homography ::
  "svd_fn \<Rightarrow> root_fn \<Rightarrow> matrix \<Rightarrow> real \<times> real \<Rightarrow> (real \<times> real) list \<Rightarrow> (real \<times> real) list \<Rightarrow>
   vector option \<Rightarrow> matrix result" where
  "refine_homography svd solver H0 cxy psrc ptgt weights =
     (case module_globals ''estimate_intrinsics_assume_cxy_noskew'' of
        None \<Rightarrow> Raises NameError
      | Some Other \<Rightarrow> Raises TypeError
      | Some (Estimator estimate) \<Rightarrow>
          bind (estimate svd [H0] cxy) (\<lambda>K0'.
          bind (finite_matrix K0') (\<lambda>K0.
          bind (get_extrinsics_from_homography svd H0 K0) (\<lambda>E0.
          bind (matrix_to_intrinsics K0) (\<lambda>(fx, fy, cx, cy).
          bind (matrix_to_xyzrph E0) (\<lambda>(x, y, z, r, p, h).
            (let objective = (\<lambda>theta.
                   case theta of
                     [fx', fy', x', y', z', r', p', h'] \<Rightarrow>
                       reprojection_error fx' fy' x' y' z' r' p' h' cx cy psrc ptgt weights
                   | _ \<Rightarrow> Raises TypeError)
             in bind (solver objective [fx, fy, x, y, z, r, p, h]) (\<lambda>res.
                  case res of
                    [fx', fy', x', y', z', r', p', h'] \<Rightarrow>
                      Returns (dot (intrisics_to_matrix fx' fy' cx cy)
                                   (xyzrph_to_matrix x' y' z' r' p' h'))
                  | _ \<Rightarrow> Raises ValueError))))))))"

text \<open>A graph in which two intrinsics tags are bound to one node object.\<close>

definition graph_shared :: ConstraintGraph where
  "graph_shared = \<lparr>inodes = [(''a'', 0), (''b'', 0)], enodes = [(''e'', 0)], constraints = []\<rparr>"

section \<open>Packing and unpacking the graph state\<close>

lemma reshape4_concat: "reshape4 (concat (map tuple4 ts)) = Returns ts"
  by (induction ts) auto

lemma reshape6_concat: "reshape6 (concat (map tuple6 ts)) = Returns ts"
  by (induction ts) auto

lemma length_concat_tuple4: "length (concat (map tuple4 ts)) = 4 * length ts"
  by (induction ts) auto

lemma length_concat_tuple6: "length (concat (map tuple6 ts)) = 6 * length ts"
  by (induction ts) auto

lemma reshape4_total:
  "length v = 4 * n \<Longrightarrow>
   \<exists>rows. reshape4 v = Returns rows \<and> length rows = n \<and> concat (map tuple4 rows) = v"
proof (induction n arbitrary: v)
  case 0
  then show ?case by simp
next
  case (Suc n)
  then have "length v = Suc (Suc (Suc (Suc (4 * n))))" by simp
  then obtain a b c d rest where v: "v = a # b # c # d # rest" and r: "length rest = 4 * n"
    by (auto simp: length_Suc_conv)
  from Suc.IH[OF r] show ?case using v by auto
qed

lemma reshape6_total:
  "length v = 6 * n \<Longrightarrow>
   \<exists>rows. reshape6 v = Returns rows \<and> length rows = n \<and> concat (map tuple6 rows) = v"
proof (induction n arbitrary: v)
  case 0
  then show ?case by simp
next
  case (Suc n)
  then have "length v = Suc (Suc (Suc (Suc (Suc (Suc (6 * n))))))" by simp
  then obtain a b c d e f rest
    where v: "v = a # b # c # d # e # f # rest" and r: "length rest = 6 * n"
    by (auto simp: length_Suc_conv)
  from Suc.IH[OF r] show ?case using v by auto
qed

lemma inode_set_own [simp]: "inode_set_value (inode_to_tuple n) n = n"
  by (cases n) simp

lemma enode_set_own [simp]: "enode_set_value (enode_to_tuple n) n = n"
  by (cases n) simp

lemma inode_get_set [simp]: "inode_to_tuple (inode_set_value t n) = t"
  by (cases n; cases t) auto

lemma enode_get_set [simp]: "enode_to_tuple (enode_set_value t n) = t"
  by (cases n; cases t) auto

text \<open>Writing back what was read changes nothing, whether or not two tags share a node.\<close>

lemma set_inodes_own: "set_inodes is (map (\<lambda>i. inode_to_tuple (inode_at s i)) is) s = s"
  by (induction "is") auto

lemma set_enodes_own: "set_enodes es (map (\<lambda>e. enode_to_tuple (enode_at s e)) es) s = s"
  by (induction es) auto

lemma enode_at_set_inodes [simp]: "enode_at (set_inodes is rows s) = enode_at s"
  by (induction "is" rows s rule: set_inodes.induct) auto

lemma inode_at_set_enodes [simp]: "inode_at (set_enodes es rows s) = inode_at s"
  by (induction es rows s rule: set_enodes.induct) auto

lemma set_inodes_other: "i \<notin> set is \<Longrightarrow> inode_at (set_inodes is rows s) i = inode_at s i"
  by (induction "is" rows s rule: set_inodes.induct) auto

lemma set_enodes_other: "e \<notin> set es \<Longrightarrow> enode_at (set_enodes es rows s) e = enode_at s e"
  by (induction es rows s rule: set_enodes.induct) auto

lemma set_inodes_read:
  "distinct is \<Longrightarrow> length rows = length is \<Longrightarrow>
   map (\<lambda>i. inode_to_tuple (inode_at (set_inodes is rows s) i)) is = rows"
proof (induction "is" rows s rule: set_inodes.induct)
  case (1 i "is" ival ivals s)
  then show ?case by (simp add: set_inodes_other)
qed auto

lemma set_enodes_read:
  "distinct es \<Longrightarrow> length rows = length es \<Longrightarrow>
   map (\<lambda>e. enode_to_tuple (enode_at (set_enodes es rows s) e)) es = rows"
proof (induction es rows s rule: set_enodes.induct)
  case (1 e es eval evals s)
  then show ?case by (simp add: set_enodes_other)
qed auto

lemma pack_returns:
  assumes "inodes g \<noteq> []" and "enodes g \<noteq> []"
  shows "pack_into_vector g s =
    Returns (concat (map tuple4 (map (\<lambda>i. inode_to_tuple (inode_at s i)) (map snd (inodes g))))
           @ concat (map tuple6 (map (\<lambda>e. enode_to_tuple (enode_at s e)) (map snd (enodes g)))))"
  using assms by (simp add: pack_into_vector_def hstack_def comp_def)

lemma unpack_pack:
  assumes "inodes g \<noteq> []" and "enodes g \<noteq> []"
  shows "\<exists>v. pack_into_vector g s = Returns v \<and> unpack_from_vector g s v = Returns s"
proof -
  let ?its = "map (\<lambda>i. inode_to_tuple (inode_at s i)) (map snd (inodes g))"
  let ?ets = "map (\<lambda>e. enode_to_tuple (enode_at s e)) (map snd (enodes g))"
  let ?v = "concat (map tuple4 ?its) @ concat (map tuple6 ?ets)"
  have len: "length (concat (map tuple4 ?its)) = 4 * length (inodes g)"
    unfolding length_concat_tuple4 length_map ..
  have t: "take (4 * length (inodes g)) ?v = concat (map tuple4 ?its)"
    using len by (simp del: map_map)
  have d: "drop (4 * length (inodes g)) ?v = concat (map tuple6 ?ets)"
    using len by (simp del: map_map)
  have "unpack_from_vector g s ?v = Returns s"
    by (simp only: unpack_from_vector_def Let_def t d reshape4_concat reshape6_concat
        bind.simps set_inodes_own set_enodes_own)
  with pack_returns[OF assms, of s] show ?thesis by (simp del: map_map)
qed

lemma pack_unpack:
  assumes "inodes g \<noteq> []" and "enodes g \<noteq> []"
    and "distinct (map snd (inodes g))" and "distinct (map snd (enodes g))"
    and len: "length v = 4 * length (inodes g) + 6 * length (enodes g)"
  shows "\<exists>s'. unpack_from_vector g s v = Returns s' \<and> pack_into_vector g s' = Returns v"
proof -
  let ?N = "length (inodes g)"
  have "length (take (4 * ?N) v) = 4 * ?N" using len by simp
  from reshape4_total[OF this] obtain irows where
    ir: "reshape4 (take (4 * ?N) v) = Returns irows" "length irows = ?N"
        "concat (map tuple4 irows) = take (4 * ?N) v" by blast
  have "length (drop (4 * ?N) v) = 6 * length (enodes g)" using len by simp
  from reshape6_total[OF this] obtain erows where
    er: "reshape6 (drop (4 * ?N) v) = Returns erows" "length erows = length (enodes g)"
        "concat (map tuple6 erows) = drop (4 * ?N) v" by blast
  let ?s' = "set_enodes (map snd (enodes g)) erows (set_inodes (map snd (inodes g)) irows s)"
  have u: "unpack_from_vector g s v = Returns ?s'"
    by (simp add: unpack_from_vector_def ir er)
  have i: "map (\<lambda>i. inode_to_tuple (inode_at ?s' i)) (map snd (inodes g)) = irows"
    using set_inodes_read[OF assms(3), of irows s] ir(2) by simp
  have e: "map (\<lambda>e. enode_to_tuple (enode_at ?s' e)) (map snd (enodes g)) = erows"
    using set_enodes_read[OF assms(4), of erows] er(2) by simp
  have "pack_into_vector g ?s' = Returns (concat (map tuple4 irows) @ concat (map tuple6 erows))"
    unfolding pack_returns[OF assms(1,2)] i e ..
  also have "\<dots> = Returns v" by (simp add: ir(3) er(3))
  finally show ?thesis using u by blast
qed

text \<open>
  Claim C3, as the code has it.  \<open>_pack_into_vector\<close> stacks the intrinsics tuples and the
  extrinsics tuples with \<^verbatim>\<open>np.hstack\<close>, which raises on an empty list, so the graph
  needs at least one node of each kind.  For such a graph, unpacking the packed vector
  leaves the whole store (every node's tuple and tag) as it was; and when the graph
  holds \<open>I\<close> intrinsics nodes and \<open>E\<close> extrinsics nodes, that is \<open>I\<close> and \<open>E\<close> different
  objects, unpacking any vector \<open>v\<close> of length \<open>4 * I + 6 * E\<close> and packing again
  returns exactly \<open>v\<close>.
\<close>

theorem pack_unpack_roundtrip:
  assumes "inodes g \<noteq> []" and "enodes g \<noteq> []"
  shows "(\<exists>v. pack_into_vector g s = Returns v \<and> unpack_from_vector g s v = Returns s) \<and>
         (distinct (map snd (inodes g)) \<and> distinct (map snd (enodes g)) \<and>
          length w = 4 * length (inodes g) + 6 * length (enodes g) \<longrightarrow>
          (\<exists>s'. unpack_from_vector g s w = Returns s' \<and> pack_into_vector g s' = Returns w))"
  using unpack_pack[OF assms] pack_unpack[OF assms] by blast

theorem pack_unpack_roundtrip_witness:
  "inodes graph1 \<noteq> [] \<and> enodes graph1 \<noteq> [] \<and>
   distinct (map snd (inodes graph1)) \<and> distinct (map snd (enodes graph1)) \<and>
   length [1, 2, 3, 4, 5, 6, 7, 8, 9, 10 :: real]
     = 4 * length (inodes graph1) + 6 * length (enodes graph1) \<and>
   (\<exists>v. pack_into_vector graph1 store0 = Returns v \<and>
        unpack_from_vector graph1 store0 v = Returns store0) \<and>
   (\<exists>s'. unpack_from_vector graph1 store0 [1, 2, 3, 4, 5, 6, 7, 8, 9, 10] = Returns s' \<and>
         pack_into_vector graph1 s' = Returns [1, 2, 3, 4, 5, 6, 7, 8, 9, 10])"
  using pack_unpack_roundtrip[of graph1 store0 "[1, 2, 3, 4, 5, 6, 7, 8, 9, 10]"]
  by (simp add: graph1_def)

text \<open>
  The claim as stated, for every graph: the freshly constructed graph has no nodes, and
  packing it raises instead of returning the empty vector.  And when the mapping binds
  two tags to one node object, the two entries share their state: of the vector
  unpacked, the second write wins, and packing returns another vector.
\<close>

theorem pack_unpack_counterexample:
  "pack_into_vector ConstraintGraph_init store0 = Raises ValueError \<and>
   bind (unpack_from_vector graph_shared store0 [1, 2, 3, 4, 5, 6, 7, 8, 9, 10, 11, 12, 13, 14])
        (pack_into_vector graph_shared)
     = Returns [5, 6, 7, 8, 5, 6, 7, 8, 9, 10, 11, 12, 13, 14]"
  by (simp add: pack_into_vector_def ConstraintGraph_init_def hstack_def graph_shared_def
      unpack_from_vector_def store0_def)

section \<open>The residual handed to the solver\<close>

lemma sq_unweighted_example:
  "sq_unweighted_reprojection_errors store1 constraint_weight_1 = Returns [[1], [4]]"
  by (simp add: sq_unweighted_reprojection_errors_def store1_def constraint_weight_1_def
      intrinsics_to_matrix_def camera_math_xyzrph_to_matrix_def translate_def rotx_def roty_def
      rotz_def dot_def inner_def diag_def Let_def)

lemma sq_errors_example: "sq_errors store1 constraint_weight_1 = Returns [1 / 2, 3 / 2]"
  by (simp add: sq_errors_def sq_unweighted_example pseudo_huber_loss_def np_where_def)

lemma sq_unweighted_weights:
  "differ_only_in_weights c d \<Longrightarrow>
   sq_unweighted_reprojection_errors s c = sq_unweighted_reprojection_errors s d"
  by (simp add: differ_only_in_weights_def sq_unweighted_reprojection_errors_def Let_def
      cong: if_cong)

lemma sq_errors_weights: "differ_only_in_weights c d \<Longrightarrow> sq_errors s c = sq_errors s d"
  by (simp add: sq_errors_def sq_unweighted_weights)

lemma traverse_weights:
  "list_all2 differ_only_in_weights cs ds \<Longrightarrow>
   traverse (sq_errors s) cs = traverse (sq_errors s) ds"
  by (induction cs ds rule: list_all2_induct) (auto simp: sq_errors_weights)

text \<open>
  Claim C2.  Two constraints with the same correspondences and the same nodes, whatever
  their weight matrices, have the same \<open>sq_errors\<close> in every store; and two graphs whose
  constraints agree in this way one by one have the same \<open>constraint_errors\<close>, the
  residual vector the solver minimises.
\<close>

theorem weights_never_reach_residual:
  "(differ_only_in_weights c d \<longrightarrow> sq_errors s c = sq_errors s d) \<and>
   (list_all2 differ_only_in_weights (constraints g) (constraints g') \<longrightarrow>
      constraint_errors g s = constraint_errors g' s)"
  by (simp add: sq_errors_weights constraint_errors_def traverse_weights)

theorem weights_never_reach_residual_witness:
  "differ_only_in_weights constraint_weight_1 constraint_weight_9 \<and>
   W constraint_weight_1 \<noteq> W constraint_weight_9 \<and>
   sq_errors store1 constraint_weight_1 = sq_errors store1 constraint_weight_9 \<and>
   list_all2 differ_only_in_weights (constraints graph_weight_1) (constraints graph_weight_9) \<and>
   constraint_errors graph_weight_1 store1 = constraint_errors graph_weight_9 store1"
  using weights_never_reach_residual
    [of constraint_weight_1 constraint_weight_9 store1 graph_weight_1 graph_weight_9]
  by (simp add: differ_only_in_weights_def constraint_weight_1_def constraint_weight_9_def
      graph_weight_1_def graph_weight_9_def)

lemma huber_refines: "pseudo_huber_loss sqerr (map sqrt sqerr) 1 = map spec_pseudo_huber sqerr"
  by (induction sqerr) (auto simp: pseudo_huber_loss_def np_where_def spec_pseudo_huber_def)

lemma spec_quadratic: "0 \<le> e \<Longrightarrow> e \<le> 1 \<Longrightarrow> spec_pseudo_huber (e\<^sup>2) = e\<^sup>2 / 2"
  by (simp add: spec_pseudo_huber_def)

lemma spec_linear: "1 < e \<Longrightarrow> spec_pseudo_huber (e\<^sup>2) = e - 1 / 2"
  by (simp add: spec_pseudo_huber_def)

lemma sq_errors_spec:
  "sq_errors s c =
     bind (sq_unweighted_reprojection_errors s c)
       (\<lambda>m. Returns (map spec_pseudo_huber (concat m)))"
  by (simp add: sq_errors_def huber_refines)

lemma huber_boundary:
  "np_where [b] (map (\<lambda>s. s / 2) [1]) (map (\<lambda>a. 1 * (a - 1 / 2)) [1]) = [1 / 2]"
  "pseudo_huber_loss [1] (map sqrt [1]) 1 = [1 / 2]"
  by (simp_all add: np_where_def pseudo_huber_loss_def)

text \<open>
  Claim C4.  \<open>sq_errors\<close> is the specification's pseudo-Huber residual with threshold 1
  applied to each entry of the flattened squared reprojection errors.  For a squared
  error \<open>e\<^sup>2\<close> with \<open>0 \<le> e \<le> 1\<close> the residual is \<open>e\<^sup>2 / 2\<close>, for \<open>e > 1\<close> it is
  \<open>1 * (e - 1 / 2)\<close>.  At absolute error 1 the two arrays \<^verbatim>\<open>np.where\<close> chooses from hold
  the same value \<open>1 / 2\<close>, whichever the condition selects.  Above the threshold the
  residual is linear in the absolute error with slope 1.
\<close>

theorem sq_errors_pseudo_huber:
  "sq_errors s c =
     bind (sq_unweighted_reprojection_errors s c)
       (\<lambda>m. Returns (map spec_pseudo_huber (concat m))) \<and>
   (0 \<le> e \<and> e \<le> 1 \<longrightarrow> spec_pseudo_huber (e\<^sup>2) = e\<^sup>2 / 2) \<and>
   (1 < e' \<longrightarrow> spec_pseudo_huber (e'\<^sup>2) = 1 * (e' - 1 / 2)) \<and>
   np_where [b] (map (\<lambda>s. s / 2) [1]) (map (\<lambda>a. 1 * (a - 1 / 2)) [1]) = [1 / 2] \<and>
   pseudo_huber_loss [1] (map sqrt [1]) 1 = [1 / 2] \<and>
   (1 < e' \<and> 1 < e'' \<longrightarrow> spec_pseudo_huber (e''\<^sup>2) - spec_pseudo_huber (e'\<^sup>2) = e'' - e')"
  using sq_errors_spec [of s c] huber_boundary(1) [of b] huber_boundary(2) spec_quadratic [of e]
    spec_linear [of e'] spec_linear [of e'']
  by simp

theorem sq_errors_pseudo_huber_witness:
  "(0::real) \<le> 1 / 2 \<and> (1::real) / 2 \<le> 1 \<and> (1::real) < 2 \<and> (1::real) < 3 \<and>
   sq_errors store1 constraint_weight_1 = Returns (map spec_pseudo_huber [1, 4]) \<and>
   spec_pseudo_huber ((1 / 2)\<^sup>2) = (1 / 2)\<^sup>2 / 2 \<and>
   spec_pseudo_huber (2\<^sup>2) = 1 * (2 - 1 / 2) \<and>
   spec_pseudo_huber (3\<^sup>2) - spec_pseudo_huber (2\<^sup>2) = 3 - 2"
  using sq_errors_pseudo_huber [of store1 constraint_weight_1 "1 / 2" 2 True 3]
  by (simp add: sq_unweighted_example)


section \<open>Pose tuples and rigid transforms\<close>

lemma camera_math_same: "camera_math_xyzrph_to_matrix x y z r p h = xyzrph_to_matrix x y z r p h"
  by (simp add: camera_math_xyzrph_to_matrix_def xyzrph_to_matrix_def)

lemma xyzrph_entries:
  "xyzrph_to_matrix x y z r p h =
    [[cos h * cos p, cos h * sin p * sin r - sin h * cos r, cos h * sin p * cos r + sin h * sin r, x],
     [sin h * cos p, sin h * sin p * sin r + cos h * cos r, sin h * sin p * cos r - cos h * sin r, y],
     [- sin p, cos p * sin r, cos p * cos r, z],
     [0, 0, 0, 1]]"
  by (simp add: xyzrph_to_matrix_def translate_def rotx_def roty_def rotz_def dot_def inner_def
      algebra_simps)

lemma arctan2_first:
  assumes c: "0 < c" and t: "- (pi / 2) < t" "t < pi / 2"
  shows "arctan (c * sin t / (c * cos t)) = t" and "0 < c * cos t"
proof -
  have "0 < cos t" using t by (simp add: cos_gt_zero_pi)
  then show "0 < c * cos t" using c by simp
  have "c * sin t / (c * cos t) = tan t" using c by (simp add: tan_def)
  then show "arctan (c * sin t / (c * cos t)) = t" using t by (simp add: arctan_tan)
qed

lemma arctan2_polar:
  assumes c: "0 < c" and t: "- pi < t" "t \<le> pi"
  shows "arctan2 (c * sin t) (c * cos t) = t"
proof -
  consider "- (pi / 2) < t \<and> t < pi / 2" | "t = pi / 2" | "t = - (pi / 2)"
    | "pi / 2 < t" | "t < - (pi / 2)"
    by linarith
  then show ?thesis
  proof cases
    case 1
    then show ?thesis using arctan2_first[OF c, of t] by (simp add: arctan2_def)
  next
    case 2
    show ?thesis unfolding 2 using c by (simp add: arctan2_def)
  next
    case 3
    show ?thesis unfolding 3 using c by (simp add: arctan2_def)
  next
    case 4
    define u where "u = t - pi"
    have u: "- (pi / 2) < u" "u < pi / 2" using 4 t by (simp_all add: u_def)
    have cs: "cos t = - cos u" "sin t = - sin u" by (simp_all add: u_def)
    have "0 \<le> sin (- u)" using u t by (intro sin_ge_zero) (simp_all add: u_def)
    then have y: "0 \<le> c * sin t" using c by (simp add: cs mult_le_0_iff)
    have "0 < cos u" using u by (simp add: cos_gt_zero_pi)
    then have x: "c * cos t < 0" "\<not> 0 < c * cos t"
      using c by (simp_all add: cs mult_less_0_iff zero_less_mult_iff)
    have "c * sin t / (c * cos t) = tan u" using c by (simp add: cs tan_def)
    then have "arctan (c * sin t / (c * cos t)) = u" using u by (simp add: arctan_tan)
    then have "arctan2 (c * sin t) (c * cos t) = u + pi"
      unfolding arctan2_def using x y by simp
    then show ?thesis by (simp add: u_def)
  next
    case 5
    define u where "u = t + pi"
    have u: "- (pi / 2) < u" "u < pi / 2" using 5 t by (simp_all add: u_def)
    have cs: "cos t = - cos u" "sin t = - sin u" by (simp_all add: u_def)
    have "0 < sin u" using u t by (intro sin_gt_zero) (simp_all add: u_def)
    then have y: "\<not> 0 \<le> c * sin t"
      using c by (simp add: cs mult_le_0_iff zero_le_mult_iff)
    have "0 < cos u" using u by (simp add: cos_gt_zero_pi)
    then have x: "c * cos t < 0" "\<not> 0 < c * cos t"
      using c by (simp_all add: cs mult_less_0_iff zero_less_mult_iff)
    have "c * sin t / (c * cos t) = tan u" using c by (simp add: cs tan_def)
    then have "arctan (c * sin t / (c * cos t)) = u" using u by (simp add: arctan_tan)
    then have "arctan2 (c * sin t) (c * cos t) = u - pi"
      unfolding arctan2_def using x y by simp
    then show ?thesis by (simp add: u_def)
  qed
qed

text \<open>
  The formulas of \<open>_matrix_to_xyzrph\<close> invert \<open>_xyzrph_to_matrix\<close> as functions on the
  reals, for roll and heading in \<open>(-\<pi>, \<pi>]\<close> and pitch in \<open>(-\<pi>/2, \<pi>/2)\<close>.  This is the
  mathematics behind claim C9, not the claim: the program evaluates \<open>sin\<close>, \<open>cos\<close>,
  \<open>sqrt\<close> and \<open>arctan2\<close> in float64, each with its own rounding, and the angles it
  returns agree with the angles it was given only up to that rounding.
\<close>

lemma xyzrph_roundtrip_exact_arithmetic:
  assumes "- pi < r" "r \<le> pi" "- pi < h" "h \<le> pi" "- (pi / 2) < p" "p < pi / 2"
  shows "matrix_to_xyzrph (xyzrph_to_matrix x y z r p h) = Returns (x, y, z, r, p, h)"
proof -
  have cp: "0 < cos p" using assms by (simp add: cos_gt_zero_pi)
  have rx: "arctan2 (cos p * sin r) (cos p * cos r) = r"
    using arctan2_polar[OF cp assms(1,2)] .
  have rz: "arctan2 (sin h * cos p) (cos h * cos p) = h"
    using arctan2_polar[OF cp assms(3,4)] by (simp add: mult.commute)
  have "cos h * cos p * (cos h * cos p) + sin h * cos p * (sin h * cos p)
      = cos p * cos p * (cos h * cos h + sin h * sin h)"
    by (simp only: distrib_left mult.assoc mult.left_commute mult.commute)
  also have "\<dots> = (cos p)\<^sup>2"
    by (simp only: sin_cos_squared_add3 power2_eq_square mult_1_right)
  finally have sq:
    "sqrt (cos h * cos p * (cos h * cos p) + sin h * cos p * (sin h * cos p)) = cos p"
    using cp by simp
  have "- pi < p" "p \<le> pi" using assms pi_gt_zero by linarith+
  from arctan2_polar[of 1 p, OF _ this] have ry: "arctan2 (sin p) (cos p) = p" by simp
  show ?thesis
    by (simp add: xyzrph_entries matrix_to_xyzrph_def rx rz sq ry)
qed

section \<open>Extrinsics recovery\<close>

lemma eye3: "eye 3 = [[1,0,0],[0,1,0],[0,0,1]]"
  by (simp add: eye_def upt_rec)

lemma eye4: "eye 4 = [[1,0,0,0],[0,1,0,0],[0,0,1,0],[0,0,0,1]]"
  by (simp add: eye_def upt_rec)

lemma upt3: "[0..<3] = [0, 1, 2]"
  by (simp add: upt_rec)

lemma inv_eye: "linalg_inv [[1,0,0],[0,1,0],[0,0,1]] = Returns [[1,0,0],[0,1,0],[0,0,1]]"
  by (simp add: linalg_inv_def shape_def det3_def)


lemma shape33:
  assumes "shape M 3 3"
  obtains a b c d e f g h i where "M = [[a, b, c], [d, e, f], [g, h, i]]"
proof -
  from assms have l: "length M = 3" and r: "\<forall>row \<in> set M. length row = 3"
    by (auto simp: shape_def list_all_iff)
  from l obtain r0 r1 r2 where M: "M = [r0, r1, r2]"
    by (auto simp: length_Suc_conv numeral_3_eq_3)
  with r have "length r0 = 3" "length r1 = 3" "length r2 = 3" by auto
  then obtain a b c d e f g h i where "r0 = [a, b, c]" "r1 = [d, e, f]" "r2 = [g, h, i]"
    by (auto simp: length_Suc_conv numeral_3_eq_3)
  with M that show thesis by blast
qed

lemma rigid_candidate_33:
  assumes s: "s = sqrt (norm2 [a, d, g]) * sqrt (norm2 [b, e, h])"
  shows "rigid_candidate [[a, b, c], [d, e, f], [g, h, i]] =
    (if s = 0 then Nonfinite
     else if 0 < f / s then
       Returns [[- a / s, - b / s, (d * h - g * e) / (s * s), - c / s],
                [- d / s, - e / s, (g * b - a * h) / (s * s), - f / s],
                [- g / s, - h / s, (a * e - d * b) / (s * s), - i / s],
                [0, 0, 0, 1]]
     else
       Returns [[a / s, b / s, (d * h - g * e) / (s * s), c / s],
                [d / s, e / s, (g * b - a * h) / (s * s), f / s],
                [g / s, h / s, (a * e - d * b) / (s * s), i / s],
                [0, 0, 0, 1]])"
proof -
  have c: "col [[a, b, c], [d, e, f], [g, h, i]] 0 = [a, d, g]"
          "col [[a, b, c], [d, e, f], [g, h, i]] 1 = [b, e, h]"
    by (simp_all add: col_def)
  show ?thesis
    unfolding rigid_candidate_def c s[symmetric] Let_def
    by (simp add: col_def upt3 eye4 diff_divide_distrib)
qed

lemma norm2_nonneg: "0 \<le> norm2 u"
proof -
  have "0 \<le> sum_list (map (\<lambda>a. a\<^sup>2) u)" by (rule sum_list_nonneg) auto
  then show ?thesis by (simp add: norm2_def)
qed

lemma scale_nonneg: "0 \<le> sqrt (norm2 u) * sqrt (norm2 v)"
  by (simp add: norm2_nonneg)

lemma shape33_lit [simp]: "shape [[a, b, c], [d, e, f], [g, h, i]] 3 3"
  by (simp add: shape_def)

lemma columns33 [simp]:
  "columns [[a, b, c], [d, e, f], [g, h, i]] = [[a, d, g], [b, e, h], [c, f, i]]"
  by simp

lemma dot33:
  "dot [[a, b, c], [d, e, f], [g, h, i]] [[a', b', c'], [d', e', f'], [g', h', i']] =
   [[a * a' + b * d' + c * g', a * b' + b * e' + c * h', a * c' + b * f' + c * i'],
    [d * a' + e * d' + f * g', d * b' + e * e' + f * h', d * c' + e * f' + f * i'],
    [g * a' + h * d' + i * g', g * b' + h * e' + i * h', g * c' + h * f' + i * i']]"
  by (simp add: dot_def inner_def)

lemma shape_dot33: "shape A 3 3 \<Longrightarrow> shape B 3 3 \<Longrightarrow> shape (dot A B) 3 3"
  by (erule shape33, erule shape33) (simp add: dot33)

lemma shape_columns33: "shape A 3 3 \<Longrightarrow> shape (columns A) 3 3"
  by (erule shape33) simp

lemma dot_assoc33:
  "shape A 3 3 \<Longrightarrow> shape B 3 3 \<Longrightarrow> shape C 3 3 \<Longrightarrow> dot (dot A B) C = dot A (dot B C)"
  by (erule shape33, erule shape33, erule shape33) (simp add: dot33 algebra_simps)

lemma columns_dot33:
  "shape A 3 3 \<Longrightarrow> shape B 3 3 \<Longrightarrow> columns (dot A B) = dot (columns B) (columns A)"
  by (erule shape33, erule shape33) (simp add: dot33 algebra_simps)

lemma dot_eye33: "shape A 3 3 \<Longrightarrow> dot (eye 3) A = A"
  by (erule shape33) (simp add: dot33 eye3)

lemma orthogonal_product:
  assumes "orthogonal3 U" and "orthogonal3 Vt"
  shows "dot (columns (dot U Vt)) (dot U Vt) = eye 3"
proof -
  from assms have sU: "shape U 3 3" and sV: "shape Vt 3 3"
    and oU: "dot (columns U) U = eye 3" and oV: "dot (columns Vt) Vt = eye 3"
    by (simp_all add: orthogonal3_def)
  note sUt = shape_columns33[OF sU] and sVt = shape_columns33[OF sV]
  have "dot (columns (dot U Vt)) (dot U Vt) = dot (dot (columns Vt) (columns U)) (dot U Vt)"
    by (simp add: columns_dot33[OF sU sV])
  also have "\<dots> = dot (columns Vt) (dot (columns U) (dot U Vt))"
    by (rule dot_assoc33[OF sVt sUt shape_dot33[OF sU sV]])
  also have "dot (columns U) (dot U Vt) = dot (dot (columns U) U) Vt"
    by (rule dot_assoc33[OF sUt sU sV, symmetric])
  also have "\<dots> = Vt" by (simp add: oU dot_eye33[OF sV])
  finally show ?thesis by (simp add: oV)
qed

text \<open>The inverse of the model is the inverse.\<close>

lemma linalg_inv_correct:
  assumes "linalg_inv K = Returns Ki"
  shows "dot K Ki = eye 3 \<and> dot Ki K = eye 3"
proof -
  from assms have sK: "shape K 3 3" and d: "det3 K \<noteq> 0"
    by (auto simp: linalg_inv_def split: if_splits)
  from sK obtain a b c d' e f g h i where K: "K = [[a, b, c], [d', e, f], [g, h, i]]"
    by (rule shape33)
  define D where "D = det3 K"
  have D: "D = a * (e * i - f * h) - b * (d' * i - f * g) + c * (d' * h - e * g)"
    by (simp add: D_def K det3_def)
  have Dnz: "D \<noteq> 0" using d by (simp add: D_def)
  have Ki: "Ki = [[(e * i - f * h) / D, (c * h - b * i) / D, (b * f - c * e) / D],
                  [(f * g - d' * i) / D, (a * i - c * g) / D, (c * d' - a * f) / D],
                  [(d' * h - e * g) / D, (b * g - a * h) / D, (a * e - b * d') / D]]"
    using assms sK d unfolding linalg_inv_def D_def[symmetric] Let_def
    by (simp add: K)
  have "dot K Ki = eye 3"
    unfolding K Ki dot33 eye3 using Dnz
    by (simp add: field_simps) (simp add: D algebra_simps)
  moreover have "dot Ki K = eye 3"
    unfolding K Ki dot33 eye3 using Dnz
    by (simp add: field_simps) (simp add: D algebra_simps)
  ultimately show ?thesis by simp
qed

text \<open>The decomposition used in the evaluations is one, for every orthogonal matrix.\<close>

lemma svd_of_orthogonal_valid: "orthogonal3 A \<Longrightarrow> svd_decomposes svd_of_orthogonal A"
proof -
  assume o: "orthogonal3 A"
  then have "shape A 3 3" by (simp add: orthogonal3_def)
  then obtain a b c d e f g h i where A: "A = [[a, b, c], [d, e, f], [g, h, i]]"
    by (rule shape33)
  have "dot (dot A (diag [1, 1, 1])) (eye 3) = A"
    by (simp add: A eye3 dot33 diag_def upt3)
  moreover have "orthogonal3 (eye 3)" by (simp add: orthogonal3_def eye3 dot33)
  ultimately show ?thesis using o
    by (simp add: svd_decomposes_def svd_of_orthogonal_def is_svd3_def)
qed

lemma linalg_inv_shape: "linalg_inv K = Returns Ki \<Longrightarrow> shape K 3 3 \<and> shape Ki 3 3"
  by (auto simp: linalg_inv_def Let_def split: if_splits)

lemma guard33: "shape H 3 3 \<Longrightarrow> 3 \<le> length (H ! 0) \<and> shape H 3 (length (H ! 0))"
  by (erule shape33) (simp add: shape_def)


lemma get_extrinsics_33:
  assumes "shape K 3 3" and "shape H 3 3"
  shows "get_extrinsics_from_homography svd H K =
     bind (linalg_inv K) (\<lambda>Ki.
       case rigid_candidate (dot Ki H) of
         Nonfinite \<Rightarrow> Raises LinAlgError
       | Raises e \<Rightarrow> Raises e
       | Returns E \<Rightarrow>
           bind (linalg_svd svd (map (take 3) (take 3 E))) (\<lambda>(U, s, Vt).
             (let R = dot U Vt in
              if shape R 3 3
              then Returns (map2 (\<lambda>r e. r @ drop 3 e) R (take 3 E) @ drop 3 E)
              else Raises ValueError)))"
  using assms guard33[OF assms(2)] by (simp add: get_extrinsics_from_homography_def)

lemma dot_eye33_right: "shape A 3 3 \<Longrightarrow> dot A (eye 3) = A"
  by (erule shape33) (simp add: dot33 eye3)

lemma det3_lit:
  "det3 [[a, b, c], [d, e, f], [g, h, i]] =
     a * (e * i - f * h) - b * (d * i - f * g) + c * (d * h - e * g)"
  by (simp add: det3_def)

lemma det3_mult: "shape A 3 3 \<Longrightarrow> shape B 3 3 \<Longrightarrow> det3 (dot A B) = det3 A * det3 B"
  by (erule shape33, erule shape33) (simp add: dot33 det3_lit algebra_simps)

lemma inverse_unique:
  assumes K: "shape K 3 3" and Ki: "shape Ki 3 3" and inv: "dot Ki K = eye 3"
  shows "linalg_inv K = Returns Ki"
proof -
  have "det3 Ki * det3 K = det3 (eye 3)" using det3_mult[OF Ki K] inv by simp
  also have "\<dots> = 1" by (simp add: eye3 det3_lit)
  finally have d: "det3 K \<noteq> 0" by auto
  then obtain Ki' where r: "linalg_inv K = Returns Ki'"
    using K by (simp add: linalg_inv_def Let_def)
  from linalg_inv_correct[OF r] have c: "dot K Ki' = eye 3" by simp
  from linalg_inv_shape[OF r] have sKi': "shape Ki' 3 3" by simp
  have "Ki = dot Ki (dot K Ki')" by (simp add: c dot_eye33_right[OF Ki])
  also have "\<dots> = dot (dot Ki K) Ki'" by (rule dot_assoc33[OF Ki K sKi', symmetric])
  also have "\<dots> = Ki'" by (simp add: inv dot_eye33[OF sKi'])
  finally show ?thesis using r by simp
qed

lemma diag3: "diag [a, b, c] = [[a, 0, 0], [0, b, 0], [0, 0, c]]"
  by (simp add: diag_def upt3)

lemma polar_factor:
  assumes "is_svd3 A (U, sv, Vt)"
  shows "\<exists>P. A = dot (dot U Vt) P \<and> columns P = P \<and> positive_semidefinite3 P"
proof -
  from assms have oU: "orthogonal3 U" and oV: "orthogonal3 Vt" and l: "length sv = 3"
    and nn: "list_all (\<lambda>a. 0 \<le> a) sv" and A: "dot (dot U (diag sv)) Vt = A"
    by (simp_all add: is_svd3_def)
  from l obtain s0 s1 s2 where sv: "sv = [s0, s1, s2]"
    by (auto simp: length_Suc_conv numeral_3_eq_3)
  from nn have s: "0 \<le> s0" "0 \<le> s1" "0 \<le> s2" by (simp_all add: sv)
  from oU oV have sU: "shape U 3 3" and sV: "shape Vt 3 3"
    and VVt: "dot Vt (columns Vt) = eye 3"
    by (simp_all add: orthogonal3_def)
  have sD: "shape (diag sv) 3 3" by (simp add: sv diag3)
  note sVt = shape_columns33[OF sV]
  let ?P = "dot (dot (columns Vt) (diag sv)) Vt"
  have sQ: "shape (dot (columns Vt) (diag sv)) 3 3" by (rule shape_dot33[OF sVt sD])
  have sDV: "shape (dot (diag sv) Vt) 3 3" by (rule shape_dot33[OF sD sV])
  have P': "?P = dot (columns Vt) (dot (diag sv) Vt)" by (rule dot_assoc33[OF sVt sD sV])
  have "dot (dot U Vt) ?P = dot U (dot Vt ?P)"
    by (rule dot_assoc33[OF sU sV shape_dot33[OF sQ sV]])
  also have "dot Vt ?P = dot (dot Vt (columns Vt)) (dot (diag sv) Vt)"
    unfolding P' by (rule dot_assoc33[OF sV sVt sDV, symmetric])
  also have "\<dots> = dot (diag sv) Vt" by (simp add: VVt dot_eye33[OF sDV])
  also have "dot U (dot (diag sv) Vt) = dot (dot U (diag sv)) Vt"
    by (rule dot_assoc33[OF sU sD sV, symmetric])
  finally have 1: "A = dot (dot U Vt) ?P" using A by simp
  from sV obtain a b c d e f g h i where V: "Vt = [[a, b, c], [d, e, f], [g, h, i]]"
    by (rule shape33)
  have 2: "columns ?P = ?P" by (simp add: V sv diag3 dot33 algebra_simps)
  have 3: "positive_semidefinite3 ?P"
    unfolding positive_semidefinite3_def
  proof (intro allI)
    fix x y z :: real
    have "inner [x, y, z] (map (\<lambda>row. inner row [x, y, z]) ?P)
        = s0 * (a * x + b * y + c * z)\<^sup>2 + s1 * (d * x + e * y + f * z)\<^sup>2
          + s2 * (g * x + h * y + i * z)\<^sup>2"
      by (simp add: V sv diag3 dot33 inner_def power2_eq_square algebra_simps)
    also have "0 \<le> \<dots>" using s by simp
    finally show "0 \<le> inner [x, y, z] (map (\<lambda>row. inner row [x, y, z]) ?P)" .
  qed
  from 1 2 3 show ?thesis by blast
qed

lemma extrinsics_example:
  "get_extrinsics_from_homography svd_of_orthogonal H_example (eye 3)
     = Returns [[1, 0, 0, 0], [0, 1, 0, - 1], [0, 0, 1, 5], [0, 0, 0, 1]]"
  "get_extrinsics_from_homography svd_of_orthogonal (neg H_example) (eye 3)
     = Returns [[1, 0, 0, 0], [0, 1, 0, - 1], [0, 0, 1, 5], [0, 0, 0, 1]]"
  by (simp_all add: get_extrinsics_from_homography_def H_example_def eye3 neg_def inv_eye
      shape_def dot_def inner_def rigid_candidate_def norm2_def col_def eye4 upt3 Let_def
      linalg_svd_def svd_of_orthogonal_def)


lemma orthogonal3_blocks:
  "orthogonal3 [[1, 0, 0], [0, 1, 0], [0, 0, 1]]"
  "orthogonal3 [[- 1, 0, 0], [0, - 1, 0], [0, 0, 1]]"
  by (simp_all add: orthogonal3_def dot33 eye3)


text \<open>
  Claim C1 at a concrete input.  The comment in the code asks for \<open>z < 0\<close>, but the test
  reads \<^verbatim>\<open>M[1,2]\<close>, the y coordinate of the translation column; \<open>z\<close> is \<^verbatim>\<open>M[2,2]\<close>.  For
  the homography with translation \<open>(0, -1, 5)\<close> and identity intrinsics, \<^verbatim>\<open>M[1,2]\<close> is
  negative, nothing is negated, and the returned pose has \<open>z = 5 > 0\<close>.  The negated
  homography gives the same pose, so neither sign of the input reaches \<open>z < 0\<close>.
\<close>

theorem extrinsics_z_positive:
  "get_extrinsics_from_homography svd_of_orthogonal H_example (eye 3)
     = Returns [[1, 0, 0, 0], [0, 1, 0, - 1], [0, 0, 1, 5], [0, 0, 0, 1]] \<and>
   get_extrinsics_from_homography svd_of_orthogonal (neg H_example) (eye 3)
     = Returns [[1, 0, 0, 0], [0, 1, 0, - 1], [0, 0, 1, 5], [0, 0, 0, 1]] \<and>
   (0::real) < [[1, 0, 0, 0], [0, 1, 0, - 1], [0, 0, 1, 5], [0, 0, 0, 1]] ! 2 ! 3"
  by (simp add: extrinsics_example)

lemma extrinsics_level:
  "get_extrinsics_from_homography svd_of_orthogonal H_level (eye 3)
     = Returns [[1, 0, 0, 3], [0, 1, 0, 0], [0, 0, 1, - 5], [0, 0, 0, 1]]"
  "get_extrinsics_from_homography svd_of_orthogonal (neg H_level) (eye 3)
     = Returns [[- 1, 0, 0, - 3], [0, - 1, 0, 0], [0, 0, 1, 5], [0, 0, 0, 1]]"
  by (simp_all add: get_extrinsics_from_homography_def H_level_def eye3 neg_def inv_eye
      shape_def dot_def inner_def rigid_candidate_def norm2_def col_def eye4 upt3 Let_def
      linalg_svd_def svd_of_orthogonal_def)


text \<open>
  Claim C8 at a concrete input.  For the homography of the pose with translation
  \<open>(3, 0, -5)\<close> and identity intrinsics, the entry \<^verbatim>\<open>M[1,2]\<close> that the sign test reads
  is zero for \<open>H\<close> and for \<open>-H\<close>: neither is negated, and the two calls return different
  poses, with translations \<open>(3, 0, -5)\<close> and \<open>(-3, 0, 5)\<close>.  The z coordinate \<^verbatim>\<open>M[2,2]\<close>,
  which the comment in the code names, is \<open>-5\<close> for \<open>H\<close> and \<open>5\<close> for \<open>-H\<close>; it tells the two
  apart.
\<close>

theorem extrinsics_sign_dependent:
  "get_extrinsics_from_homography svd_of_orthogonal H_level (eye 3)
     = Returns [[1, 0, 0, 3], [0, 1, 0, 0], [0, 0, 1, - 5], [0, 0, 0, 1]] \<and>
   get_extrinsics_from_homography svd_of_orthogonal (neg H_level) (eye 3)
     = Returns [[- 1, 0, 0, - 3], [0, - 1, 0, 0], [0, 0, 1, 5], [0, 0, 0, 1]] \<and>
   get_extrinsics_from_homography svd_of_orthogonal (neg H_level) (eye 3)
     \<noteq> get_extrinsics_from_homography svd_of_orthogonal H_level (eye 3)"
  by (simp add: extrinsics_level)

lemma Ki_example_dot:
  "dot Ki_example K_example = eye 3"
  "dot Ki_example H_stretched
     = [[4, 0, 0], [0, 1 / 4, - 1], [0, 0, 5]]"
  by (simp_all add: Ki_example_def K_example_def H_stretched_def dot33 eye3)

lemma norm2_axis: "norm2 [a, 0, 0] = \<bar>a\<bar>" "norm2 [0, a, 0] = \<bar>a\<bar>"
  by (simp_all add: norm2_def)

lemma sqrt_quarter: "sqrt (1 / 4) = 1 / 2"
  by (simp add: real_sqrt_divide)

lemma scale_stretched:
  "sqrt (norm2 (col [[4, 0, 0], [0, 1 / 4, - 1], [0, 0, 5]] 0))
     * sqrt (norm2 (col [[4, 0, 0], [0, 1 / 4, - 1], [0, 0, 5]] 1)) = 1"
proof -
  have "col [[4, 0, 0], [0, 1 / 4, - 1], [0, 0, 5 :: real]] 0 = [4, 0, 0]"
       "col [[4, 0, 0], [0, 1 / 4, - 1], [0, 0, 5 :: real]] 1 = [0, 1 / 4, 0]"
    by (simp_all add: col_def)
  then show ?thesis by (simp add: norm2_axis sqrt_quarter)
qed

lemma candidate_stretched:
  "rigid_candidate [[4, 0, 0], [0, 1 / 4, - 1], [0, 0, 5]]
     = Returns [[4, 0, 0, 0], [0, 1 / 4, 0, - 1], [0, 0, 1, 5], [0, 0, 0, 1]]"
proof -
  have s: "(1::real) = sqrt (norm2 [4, 0, 0]) * sqrt (norm2 [0, 1 / 4, 0])"
    by (simp add: norm2_axis sqrt_quarter)
  show ?thesis unfolding rigid_candidate_33[OF s] by simp
qed

lemma Ki_front_dot: "dot Ki_example H_front = [[4, 0, 0], [0, 1 / 4, - 1], [0, 0, - 5]]"
  by (simp add: Ki_example_def H_front_def dot33)

lemma scale_front:
  "sqrt (norm2 (col [[4, 0, 0], [0, 1 / 4, - 1], [0, 0, - 5]] 0))
     * sqrt (norm2 (col [[4, 0, 0], [0, 1 / 4, - 1], [0, 0, - 5]] 1)) = 1"
proof -
  have "col [[4, 0, 0], [0, 1 / 4, - 1], [0, 0, - 5 :: real]] 0 = [4, 0, 0]"
       "col [[4, 0, 0], [0, 1 / 4, - 1], [0, 0, - 5 :: real]] 1 = [0, 1 / 4, 0]"
    by (simp_all add: col_def)
  then show ?thesis by (simp add: norm2_axis sqrt_quarter)
qed

lemma candidate_front:
  "rigid_candidate [[4, 0, 0], [0, 1 / 4, - 1], [0, 0, - 5]]
     = Returns [[4, 0, 0, 0], [0, 1 / 4, 0, - 1], [0, 0, 1, - 5], [0, 0, 0, 1]]"
proof -
  have s: "(1::real) = sqrt (norm2 [4, 0, 0]) * sqrt (norm2 [0, 1 / 4, 0])"
    by (simp add: norm2_axis sqrt_quarter)
  show ?thesis unfolding rigid_candidate_33[OF s] by simp
qed

text \<open>
  With a zero scale the assembled array has \<open>nan\<close> entries and the decomposition raises.
\<close>

lemma extrinsics_zero_scale_raises:
  assumes "shape K 3 3" and "shape H 3 3" and "linalg_inv K = Returns Ki"
    and "sqrt (norm2 (col (dot Ki H) 0)) * sqrt (norm2 (col (dot Ki H) 1)) = 0"
  shows "get_extrinsics_from_homography svd H K = Raises LinAlgError"
  using assms(3,4)
  by (simp add: get_extrinsics_33[OF assms(1,2)] rigid_candidate_def Let_def)

lemma svd_stretched_valid:
  "svd_decomposes svd_stretched [[4, 0, 0], [0, 1 / 4, 0], [0, 0, 1]]"
  by (simp add: svd_decomposes_def svd_stretched_def is_svd3_def orthogonal3_def dot33 eye3 diag3)

lemma extrinsics_stretched:
  "get_extrinsics_from_homography svd_stretched H_stretched K_example
     = Returns [[1, 0, 0, 0], [0, 1, 0, - 1], [0, 0, 1, 5], [0, 0, 0, 1]]"
proof -
  have sK: "shape K_example 3 3" "shape H_stretched 3 3"
    by (simp_all add: K_example_def H_stretched_def)
  have lin: "linalg_inv K_example = Returns Ki_example"
    by (rule inverse_unique[OF sK(1) _ Ki_example_dot(1)]) (simp add: Ki_example_def)
  show ?thesis
    unfolding get_extrinsics_33[OF sK] lin bind.simps Ki_example_dot(2) candidate_stretched
    by (simp add: linalg_svd_def svd_stretched_def dot33)
qed

text \<open>
  What holds of the result whichever sign the test picks, in exact arithmetic.  Let \<open>K\<close>
  be invertible with inverse \<open>Ki\<close>, \<open>M = Ki H\<close>, and let the scale \<open>s\<close> of the first two
  columns of \<open>M\<close> not be zero; let the decomposition function decompose the assembled
  block.  Then the function returns a 4 by 4 matrix \<open>E\<close> with last row \<open>[0, 0, 0, 1]\<close>
  whose upper left block \<open>R\<close> satisfies \<open>R\<^sup>T R = I\<close> and is the orthogonal factor of the
  assembled block: for one sign \<open>\<sigma>\<close>, the matrix with columns \<open>\<sigma> M0 / s\<close>, \<open>\<sigma> M1 / s\<close> and
  \<open>(M0 / s) \<times> (M1 / s)\<close> equals \<open>R P\<close> with \<open>P\<close> symmetric and positive semidefinite, and the
  translation column of \<open>E\<close> is \<open>\<sigma> M2 / s\<close>.
\<close>

lemma extrinsics_rigid_up_to_sign:
  assumes K: "shape K 3 3" and H: "shape H 3 3"
    and Ki: "shape Ki 3 3" and inv: "dot Ki K = eye 3"
    and s: "s = sqrt (norm2 (col (dot Ki H) 0)) * sqrt (norm2 (col (dot Ki H) 1))"
    and nz: "s \<noteq> 0"
    and svd: "\<forall>E0. rigid_candidate (dot Ki H) = Returns E0 \<longrightarrow>
                 svd_decomposes svd (map (take 3) (take 3 E0))"
  shows "\<exists>E R P c \<sigma>.
           get_extrinsics_from_homography svd H K = Returns E \<and>
           shape E 4 4 \<and> E ! 3 = [0, 0, 0, 1] \<and>
           R = map (take 3) (take 3 E) \<and> dot (columns R) R = eye 3 \<and>
           (\<sigma> = 1 \<or> \<sigma> = - 1) \<and>
           cross (map (\<lambda>a. a / s) (col (dot Ki H) 0)) (map (\<lambda>a. a / s) (col (dot Ki H) 1))
             = Returns c \<and>
           columns [map (\<lambda>a. \<sigma> * a / s) (col (dot Ki H) 0),
                    map (\<lambda>a. \<sigma> * a / s) (col (dot Ki H) 1), c] = dot R P \<and>
           columns P = P \<and> positive_semidefinite3 P \<and>
           col (take 3 E) 3 = map (\<lambda>a. \<sigma> * a / s) (col (dot Ki H) 2)"
proof -
  have lin: "linalg_inv K = Returns Ki" by (rule inverse_unique[OF K Ki inv])
  from shape_dot33[OF Ki H] obtain a b c d e f g h i
    where M: "dot Ki H = [[a, b, c], [d, e, f], [g, h, i]]" by (rule shape33)
  have cols: "col (dot Ki H) 0 = [a, d, g]" "col (dot Ki H) 1 = [b, e, h]"
    "col (dot Ki H) 2 = [c, f, i]"
    by (simp_all add: M col_def)
  have s': "s = sqrt (norm2 [a, d, g]) * sqrt (norm2 [b, e, h])"
    using s by (simp only: cols)
  define \<sigma> :: real where "\<sigma> = (if 0 < f / s then - 1 else 1)"
  have sg: "\<sigma> = 1 \<or> \<sigma> = - 1" by (simp add: \<sigma>_def)
  let ?c = "[(d * h - g * e) / (s * s), (g * b - a * h) / (s * s), (a * e - d * b) / (s * s)]"
  let ?E0 = "[[\<sigma> * a / s, \<sigma> * b / s, (d * h - g * e) / (s * s), \<sigma> * c / s],
              [\<sigma> * d / s, \<sigma> * e / s, (g * b - a * h) / (s * s), \<sigma> * f / s],
              [\<sigma> * g / s, \<sigma> * h / s, (a * e - d * b) / (s * s), \<sigma> * i / s],
              [0, 0, 0, 1]]"
  let ?A = "[[\<sigma> * a / s, \<sigma> * b / s, (d * h - g * e) / (s * s)],
             [\<sigma> * d / s, \<sigma> * e / s, (g * b - a * h) / (s * s)],
             [\<sigma> * g / s, \<sigma> * h / s, (a * e - d * b) / (s * s)]]"
  have E0: "rigid_candidate (dot Ki H) = Returns ?E0"
    unfolding M rigid_candidate_33[OF s'] using nz by (simp add: \<sigma>_def)
  have blk0: "map (take 3) (take 3 ?E0) = ?A" by simp
  from svd E0 have "svd_decomposes svd ?A" unfolding blk0[symmetric] by blast
  then obtain U sv Vt where usv: "svd ?A = Some (U, sv, Vt)" and isv: "is_svd3 ?A (U, sv, Vt)"
    by (auto simp: svd_decomposes_def split: option.splits)
  from isv have oU: "orthogonal3 U" and oV: "orthogonal3 Vt" by (simp_all add: is_svd3_def)
  then have sR: "shape (dot U Vt) 3 3" by (simp add: orthogonal3_def shape_dot33)
  then obtain r00 r01 r02 r10 r11 r12 r20 r21 r22 where
    R: "dot U Vt = [[r00, r01, r02], [r10, r11, r12], [r20, r21, r22]]" by (rule shape33)
  let ?E = "[[r00, r01, r02, \<sigma> * c / s], [r10, r11, r12, \<sigma> * f / s],
             [r20, r21, r22, \<sigma> * i / s], [0, 0, 0, 1]]"
  have res: "get_extrinsics_from_homography svd H K = Returns ?E"
    by (simp add: get_extrinsics_33[OF K H] lin E0 linalg_svd_def usv R)
  have blk: "map (take 3) (take 3 ?E) = dot U Vt" by (simp add: R)
  have orth: "dot (columns (dot U Vt)) (dot U Vt) = eye 3"
    by (rule orthogonal_product[OF oU oV])
  from polar_factor[OF isv] obtain P where
    P: "?A = dot (dot U Vt) P" "columns P = P" "positive_semidefinite3 P" by blast
  have cr: "cross (map (\<lambda>a. a / s) (col (dot Ki H) 0)) (map (\<lambda>a. a / s) (col (dot Ki H) 1))
      = Returns ?c"
    unfolding cols using nz by (simp add: field_simps)
  have asm: "columns [map (\<lambda>a. \<sigma> * a / s) (col (dot Ki H) 0),
                      map (\<lambda>a. \<sigma> * a / s) (col (dot Ki H) 1), ?c] = ?A"
    unfolding cols by simp
  have tr: "col (take 3 ?E) 3 = map (\<lambda>a. \<sigma> * a / s) (col (dot Ki H) 2)"
    unfolding cols by (simp add: col_def)
  have sh: "shape ?E 4 4" "?E ! 3 = [0, 0, 0, 1]" by (simp_all add: shape_def)
  show ?thesis
    apply (rule exI[of _ ?E], rule exI[of _ "dot U Vt"], rule exI[of _ P],
           rule exI[of _ ?c], rule exI[of _ \<sigma>])
    using res sh blk orth sg cr asm P tr by simp
qed

text \<open>An instance: a pose in front of the camera, with columns that need the projection.\<close>

lemma extrinsics_rigid_up_to_sign_example:
  "shape K_example 3 3 \<and> shape H_front 3 3 \<and> shape Ki_example 3 3 \<and>
   dot Ki_example K_example = eye 3 \<and>
   (1::real) = sqrt (norm2 (col (dot Ki_example H_front) 0))
                * sqrt (norm2 (col (dot Ki_example H_front) 1)) \<and>
   (1::real) \<noteq> 0 \<and>
   rigid_candidate (dot Ki_example H_front)
     = Returns [[4, 0, 0, 0], [0, 1 / 4, 0, - 1], [0, 0, 1, - 5], [0, 0, 0, 1]] \<and>
   svd_decomposes svd_stretched [[4, 0, 0], [0, 1 / 4, 0], [0, 0, 1]] \<and>
   (\<exists>E R P c \<sigma>.
      get_extrinsics_from_homography svd_stretched H_front K_example = Returns E \<and>
      shape E 4 4 \<and> E ! 3 = [0, 0, 0, 1] \<and>
      R = map (take 3) (take 3 E) \<and> dot (columns R) R = eye 3 \<and>
      (\<sigma> = 1 \<or> \<sigma> = - 1) \<and>
      cross (map (\<lambda>a. a / 1) (col (dot Ki_example H_front) 0))
            (map (\<lambda>a. a / 1) (col (dot Ki_example H_front) 1)) = Returns c \<and>
      columns [map (\<lambda>a. \<sigma> * a / 1) (col (dot Ki_example H_front) 0),
               map (\<lambda>a. \<sigma> * a / 1) (col (dot Ki_example H_front) 1), c] = dot R P \<and>
      columns P = P \<and> positive_semidefinite3 P \<and>
      col (take 3 E) 3 = map (\<lambda>a. \<sigma> * a / 1) (col (dot Ki_example H_front) 2))"
proof -
  have M: "dot Ki_example H_front = [[4, 0, 0], [0, 1 / 4, - 1], [0, 0, - 5]]"
    by (rule Ki_front_dot)
  have h1: "shape K_example 3 3" and h2: "shape H_front 3 3"
    and h3: "shape Ki_example 3 3"
    by (simp_all add: K_example_def H_front_def Ki_example_def)
  have h4: "dot Ki_example K_example = eye 3"
    by (rule Ki_example_dot(1))
  have h5: "(1::real) = sqrt (norm2 (col (dot Ki_example H_front) 0))
                * sqrt (norm2 (col (dot Ki_example H_front) 1))"
    unfolding M by (rule scale_front[symmetric])
  have h6: "(1::real) \<noteq> 0" by simp
  have rc: "rigid_candidate (dot Ki_example H_front)
     = Returns [[4, 0, 0, 0], [0, 1 / 4, 0, - 1], [0, 0, 1, - 5], [0, 0, 0, 1]]"
    unfolding M by (rule candidate_front)
  have sv: "\<forall>E0. rigid_candidate (dot Ki_example H_front) = Returns E0 \<longrightarrow>
                 svd_decomposes svd_stretched (map (take 3) (take 3 E0))"
    unfolding rc using svd_stretched_valid by simp
  show ?thesis
    by (intro conjI h1 h2 h3 h4 h5 h6 rc svd_stretched_valid
        extrinsics_rigid_up_to_sign[OF h1 h2 h3 h4 h5 h6 sv])
qed

text \<open>
  Claim C7 at a concrete input.  The claim has the translation column sign-corrected,
  that is with \<open>z < 0\<close>.  For \<open>K_example\<close> and \<open>H_stretched\<close> the third column of \<open>K\<^sup>-\<^sup>1 H\<close> is
  \<open>(0, -1, 5)\<close> and the scale is 1; the sign test reads the \<open>-1\<close>, negates nothing, and the
  function returns the translation \<open>(0, -1, 5)\<close> with \<open>z = 5 > 0\<close>: a rigid transform, with
  the sign not corrected.
\<close>

theorem extrinsics_translation_not_corrected:
  "get_extrinsics_from_homography svd_stretched H_stretched K_example
     = Returns [[1, 0, 0, 0], [0, 1, 0, - 1], [0, 0, 1, 5], [0, 0, 0, 1]] \<and>
   dot Ki_example K_example = eye 3 \<and>
   col (dot Ki_example H_stretched) 2 = [0, - 1, 5] \<and>
   col (take 3 [[1, 0, 0, 0], [0, 1, 0, - 1], [0, 0, 1, 5], [0, 0, 0, 1 :: real]]) 3
     = [0, - 1, 5] \<and>
   (0::real) < [[1, 0, 0, 0], [0, 1, 0, - 1], [0, 0, 1, 5], [0, 0, 0, 1]] ! 2 ! 3"
  by (simp add: extrinsics_stretched Ki_example_dot col_def)

section \<open>Intrinsics estimators: errors\<close>

lemma bind_Raises:
  "bind m f = Raises e \<longleftrightarrow> m = Raises e \<or> (\<exists>a. m = Returns a \<and> f a = Raises e)"
  by (cases m) auto

lemma coeff_vec_not_iee: "coeff_vec H i j \<noteq> Raises IntrinsicsEstimationError"
  by (simp add: coeff_vec_def split: list.splits prod.splits)

lemma constraint_rows_not_iee: "constraint_rows H \<noteq> Raises IntrinsicsEstimationError"
  by (simp add: constraint_rows_def bind_Raises coeff_vec_not_iee)

lemma constraint_rows_cxy_not_iee:
  "constraint_rows_cxy u0 v0 H \<noteq> Raises IntrinsicsEstimationError"
  by (simp add: constraint_rows_cxy_def split: list.splits prod.splits)

lemma traverse_not_iee:
  "(\<And>a. f a \<noteq> Raises IntrinsicsEstimationError) \<Longrightarrow>
   traverse f as \<noteq> Raises IntrinsicsEstimationError"
  by (induction as) (auto simp: bind_Raises)

lemma last_right_singular_not_iee:
  "last_right_singular svd C \<noteq> Raises IntrinsicsEstimationError"
  by (auto simp: last_right_singular_def linalg_svd_def bind_Raises split: option.splits)

lemma math_sqrt_not_iee: "math_sqrt a \<noteq> Raises IntrinsicsEstimationError"
  by (cases a) simp_all

lemma cam_matrix_not_iee:
  "cam_matrix_from_B b11 b12 b22 b13 b23 b33 \<noteq> Raises IntrinsicsEstimationError"
  by (simp add: cam_matrix_from_B_def Let_def bind_Raises math_sqrt_not_iee)

lemma check_iee:
  "list_all (\<lambda>h. shape h 3 3) hs \<Longrightarrow>
   (check_homographies hs n = Raises IntrinsicsEstimationError \<longleftrightarrow> length hs < n) \<and>
   (n \<le> length hs \<longrightarrow> check_homographies hs n = Returns ())"
  by (simp add: check_homographies_def)

lemma unpack6_not_iee:
  "(case b of [b11, b12, b22, b13, b23, b33] \<Rightarrow> cam_matrix_from_B b11 b12 b22 b13 b23 b33
    | _ \<Rightarrow> Raises ValueError) \<noteq> Raises IntrinsicsEstimationError"
  by (simp add: cam_matrix_not_iee split: list.splits)

lemma unpack5_not_iee:
  "(case b of [b11, b22, b13, b23, b33] \<Rightarrow> cam_matrix_from_B b11 0 b22 b13 b23 b33
    | _ \<Rightarrow> Raises ValueError) \<noteq> Raises IntrinsicsEstimationError"
  by (simp add: cam_matrix_not_iee split: list.splits)

lemma unpack3_not_iee:
  "(case bs of
      [alpha, beta, _] \<Rightarrow>
        Returns [[alpha, Finite 0, Finite u0],
                 [Finite 0, beta, Finite v0],
                 [Finite 0, Finite 0, Finite 1]]
    | _ \<Rightarrow> Raises ValueError) \<noteq> Raises IntrinsicsEstimationError"
  by (simp split: list.splits)

lemma estimate_intrinsics_iee:
  assumes "list_all (\<lambda>h. shape h 3 3) hs"
  shows "estimate_intrinsics svd hs = Raises IntrinsicsEstimationError \<longleftrightarrow> length hs < 2"
  using check_iee[OF assms, of 2]
  by (auto simp: estimate_intrinsics_def bind_Raises Let_def traverse_not_iee
      constraint_rows_not_iee last_right_singular_not_iee unpack6_not_iee)

lemma estimate_intrinsics_noskew_iee:
  assumes "list_all (\<lambda>h. shape h 3 3) hs"
  shows "estimate_intrinsics_noskew svd hs = Raises IntrinsicsEstimationError \<longleftrightarrow> length hs < 2"
  using check_iee[OF assms, of 2]
  by (auto simp: estimate_intrinsics_noskew_def bind_Raises Let_def traverse_not_iee
      constraint_rows_not_iee last_right_singular_not_iee unpack5_not_iee)

lemma estimate_intrinsics_noskew_assume_cxy_iee:
  assumes "list_all (\<lambda>h. shape h 3 3) hs"
  shows "estimate_intrinsics_noskew_assume_cxy svd hs cxy = Raises IntrinsicsEstimationError
           \<longleftrightarrow> length hs < 1"
  using check_iee[OF assms, of 1]
  by (cases cxy)
     (auto simp: estimate_intrinsics_noskew_assume_cxy_def bind_Raises traverse_not_iee
      constraint_rows_cxy_not_iee last_right_singular_not_iee unpack3_not_iee)

text \<open>
  Claim C5.  For a list of 3 by 3 homographies and any decomposition function,
  \<open>estimate_intrinsics\<close> and \<open>estimate_intrinsics_noskew\<close> raise
  \<open>IntrinsicsEstimationError\<close> exactly when the list has fewer than 2 elements and
  \<open>estimate_intrinsics_noskew_assume_cxy\<close> exactly when it has fewer than 1; with the
  minimum met the check returns and the estimation goes on.
\<close>

theorem estimators_insufficient_data:
  assumes "list_all (\<lambda>h. shape h 3 3) homographies"
  shows "(estimate_intrinsics svd homographies = Raises IntrinsicsEstimationError
            \<longleftrightarrow> length homographies < 2) \<and>
         (estimate_intrinsics_noskew svd homographies = Raises IntrinsicsEstimationError
            \<longleftrightarrow> length homographies < 2) \<and>
         (estimate_intrinsics_noskew_assume_cxy svd homographies cxy
            = Raises IntrinsicsEstimationError \<longleftrightarrow> length homographies < 1) \<and>
         (2 \<le> length homographies \<longrightarrow> check_homographies homographies 2 = Returns ()) \<and>
         (1 \<le> length homographies \<longrightarrow> check_homographies homographies 1 = Returns ())"
  using estimate_intrinsics_iee[OF assms] estimate_intrinsics_noskew_iee[OF assms]
    estimate_intrinsics_noskew_assume_cxy_iee[OF assms] check_iee[OF assms]
  by simp

theorem estimators_insufficient_data_witness:
  "list_all (\<lambda>h. shape h 3 3) [H_mixed] \<and>
   estimate_intrinsics svd_mixed_plus [H_mixed] = Raises IntrinsicsEstimationError \<and>
   estimate_intrinsics_noskew svd_mixed_plus [H_mixed] = Raises IntrinsicsEstimationError \<and>
   estimate_intrinsics_noskew_assume_cxy svd_mixed_plus [H_mixed] (0, 0)
     \<noteq> Raises IntrinsicsEstimationError \<and>
   check_homographies [H_mixed] 1 = Returns ()"
proof -
  have h: "list_all (\<lambda>h. shape h 3 3) [H_mixed]" by (simp add: H_mixed_def shape_def)
  from estimators_insufficient_data[OF h, of svd_mixed_plus "(0, 0)"] h show ?thesis by simp
qed

section \<open>Intrinsics estimators: square roots of negative values\<close>

text \<open>
  In \<open>_cam_matrix_from_B\<close>, used by \<open>estimate_intrinsics\<close> and \<open>estimate_intrinsics_noskew\<close>,
  a negative argument of the first square root raises; and so does a zero determinant
  \<open>b11 * b22 - b12 * b12\<close> with a nonzero numerator of \<open>v0\<close>, through the infinite
  \<open>lambda_\<close> it produces.
\<close>

lemma cam_matrix_negative_raises:
  "b11 * b22 - b12 * b12 \<noteq> 0 \<Longrightarrow> b11 \<noteq> 0 \<Longrightarrow>
   (b33 - (b13 * b13 + (b12 * b13 - b11 * b23) / (b11 * b22 - b12 * b12)
            * (b12 * b13 - b11 * b23)) / b11) / b11 < 0 \<Longrightarrow>
   cam_matrix_from_B b11 b12 b22 b13 b23 b33 = Raises ValueError"
  by (simp add: cam_matrix_from_B_def Let_def np_sub_def)

lemma cam_matrix_zero_determinant_raises:
  assumes d: "b11 * b22 - b12 * b12 = 0" and n: "b12 * b13 - b11 * b23 \<noteq> 0"
  shows "cam_matrix_from_B b11 b12 b22 b13 b23 b33 = Raises ValueError"
proof -
  have b11: "b11 \<noteq> 0"
  proof
    assume "b11 = 0"
    with d have "b12 = 0" by simp
    with \<open>b11 = 0\<close> n show False by simp
  qed
  from d have d': "b11 * b22 = b12 * b12" by simp
  show ?thesis
    using n b11 by (cases "0 < b12 * b13 - b11 * b23"; cases "0 < b11")
      (simp_all add: cam_matrix_from_B_def Let_def np_sub_def d' not_less)
qed

text \<open>
  The two decompositions used in the evaluation below are decompositions of the
  constraint matrix: \<open>U\<close> and \<open>Vt\<close> are orthogonal and \<open>U \<Sigma> Vt\<close> gives it back.
\<close>

lemma svd_mixed_valid:
  "svd_mixed_plus C = Some (U, s, Vt) \<Longrightarrow>
     dot (columns U) U = eye 2 \<and> orthogonal3 Vt \<and>
     dot (dot U [[s ! 0, 0, 0], [0, s ! 1, 0]]) Vt = [[0, 0, 1], [1, 1, 0]]"
  "svd_mixed_minus C = Some (U, s, Vt) \<Longrightarrow>
     dot (columns U) U = eye 2 \<and> orthogonal3 Vt \<and>
     dot (dot U [[s ! 0, 0, 0], [0, s ! 1, 0]]) Vt = [[0, 0, 1], [1, 1, 0]]"
  by (auto simp: svd_mixed_plus_def svd_mixed_minus_def orthogonal3_def eye3 dot33 eye_def
      upt_rec dot_def inner_def shape_def power_divide)


lemma rows_mixed: "constraint_rows_cxy 0 0 H_mixed = Returns [[0, 0, 1], [1, 1, 0]]"
  by (simp add: constraint_rows_cxy_def H_mixed_def col_def)

text \<open>
  Claim C6 at a concrete input.  \<open>estimate_intrinsics_noskew_assume_cxy\<close> takes its square
  roots with \<^verbatim>\<open>np.sqrt\<close>.  For the single homography \<open>H_mixed\<close> and \<open>cxy = (0, 0)\<close> the
  constraint matrix is \<open>[[0, 0, 1], [1, 1, 0]]\<close>, whose last right singular vector is
  \<open>(1, -1, 0) / sqrt 2\<close> up to sign.  Whichever sign the decomposition returns, one of
  the two reciprocals is negative, and the estimator returns a matrix with \<open>nan\<close> in the
  place of a focal length; it raises nothing.
\<close>

theorem assume_cxy_returns_nan:
  "estimate_intrinsics_noskew_assume_cxy svd_mixed_plus [H_mixed] (0, 0) =
     Returns [[Finite (sqrt (sqrt 2)), Finite 0, Finite 0],
              [Finite 0, NaN, Finite 0],
              [Finite 0, Finite 0, Finite 1]] \<and>
   estimate_intrinsics_noskew_assume_cxy svd_mixed_minus [H_mixed] (0, 0) =
     Returns [[NaN, Finite 0, Finite 0],
              [Finite 0, Finite (sqrt (sqrt 2)), Finite 0],
              [Finite 0, Finite 0, Finite 1]]"
  by (simp add: estimate_intrinsics_noskew_assume_cxy_def check_homographies_def
      H_mixed_def[symmetric] rows_mixed last_right_singular_def linalg_svd_def
      svd_mixed_plus_def svd_mixed_minus_def np_reciprocal_def)
     (simp add: H_mixed_def shape_def)

section \<open>Refinement of one homography: the unbound name\<close>

text \<open>
  Claim C10.  Whatever the arguments, the decomposition and the solver,
  \<open>refine_homography\<close> raises \<open>NameError\<close>: the name
  \<^verbatim>\<open>estimate_intrinsics_assume_cxy_noskew\<close> of its first statement is not bound in the
  module, which defines \<^verbatim>\<open>estimate_intrinsics_noskew_assume_cxy\<close>.  No refined
  homography is returned.
\<close>

theorem refine_homography_raises_NameError:
  "refine_homography svd solver H0 cxy psrc ptgt weights = Raises NameError"
  by (simp add: refine_homography_def module_globals_def)

end
